theory Spec2Isabelle
  imports Complex_Main
begin

section \<open>JavaScript values and failures\<close>

text \<open>
  The facade of \<^verbatim>\<open>src/index.js\<close> is dynamically typed: addresses, ABIs, parameters
  and everything the wrapped client returns are plain JavaScript values.  An object is
  the list of the properties visible on it (own and inherited alike); a function value is
  an identifier \<open>'f\<close> whose code belongs to the client library.  \<open>JNum\<close> stands for an
  integer of any size (a number or a bigint).
\<close>

datatype 'f jsvalue =
    JUndefined
  | JNull
  | JBool bool
  | JNum int
  | JStr string
  | JArr "'f jsvalue list"
  | JObj "(string \<times> 'f jsvalue) list"
  | JFun 'f

text \<open>
  Modelled from the spec: the failures of the wrapped client are declared nowhere in the
  repository; the spec's error taxonomy names six kinds, the last six constructors.
  \<open>TypeError\<close> is what the JavaScript runtime itself throws, \<open>Error\<close> a plain library
  error with its message.
\<close>

datatype error =
    TypeError string
  | Error string
  | ConnectionError
  | InvalidAddressError
  | InvalidMethodError
  | OutOfGasError
  | TransactionRevertedError
  | InsufficientFundsError

text \<open>
  Reading a property, \<^verbatim>\<open>v.name\<close>: a runtime \<open>TypeError\<close> on \<^verbatim>\<open>undefined\<close> and
  \<^verbatim>\<open>null\<close>, the property's value on an object that has it, \<^verbatim>\<open>undefined\<close> otherwise.
  Numbers, strings, booleans, arrays and functions have none of the properties the source
  reads (\<^verbatim>\<open>methodsmethodName\<close>, \<^verbatim>\<open>contractAddress\<close>, \<^verbatim>\<open>transactionHash\<close>).
\<close>

definition get_prop :: "'f jsvalue \<Rightarrow> string \<Rightarrow> error + 'f jsvalue" where
  "get_prop v name =
     (case v of
        JUndefined \<Rightarrow> Inl (TypeError (''Cannot read properties of undefined (reading '' @ name @ '')''))
      | JNull \<Rightarrow> Inl (TypeError (''Cannot read properties of null (reading '' @ name @ '')''))
      | JObj props \<Rightarrow> Inr (case map_of props name of Some x \<Rightarrow> x | None \<Rightarrow> JUndefined)
      | _ \<Rightarrow> Inr JUndefined)"

section \<open>The wrapped client\<close>

text \<open>
  \<^verbatim>\<open>require('web3')\<close> is not part of the repository, so the client is a parameter.  Each
  entry point takes its argument list and the state \<open>'n\<close> of everything outside the facade
  (the node, the transport, the library's internals), and either resolves to a value or
  throws; an awaited promise is its settled outcome.  The two conversion utilities and
  \<^verbatim>\<open>contract.deploy\<close> are synchronous, so their failure is a throw inside the \<^verbatim>\<open>try\<close>
  block like any other.  \<open>invoke\<close> runs the code of a function value of this client on a
  receiver and an argument list.
\<close>

type_synonym ('f, 'n) host_function =
  "'f jsvalue list \<Rightarrow> 'n \<Rightarrow> (error + 'f jsvalue) \<times> 'n"

record ('f, 'n) web3_instance =
  eth_getBlockNumber :: "('f, 'n) host_function"
  eth_getBalance :: "('f, 'n) host_function"
  eth_Contract :: "('f, 'n) host_function"
  eth_sendTransaction :: "('f, 'n) host_function"
  utils_fromWei :: "('f, 'n) host_function"
  utils_toWei :: "('f, 'n) host_function"
  invoke :: "'f \<Rightarrow> 'f jsvalue \<Rightarrow> ('f, 'n) host_function"

text \<open>
  A method call \<^verbatim>\<open>obj.name(args)\<close>: the member is read, and called with \<^verbatim>\<open>obj\<close> as
  receiver when it is a function; calling anything else is a runtime \<open>TypeError\<close>.  The
  source calls the members \<^verbatim>\<open>deploy\<close>, \<^verbatim>\<open>send\<close> and \<^verbatim>\<open>call\<close>; of these a function value
  itself has \<^verbatim>\<open>call\<close> (\<^verbatim>\<open>Function.prototype.call\<close>), which runs the function with its
  first argument as receiver and the remaining ones as arguments.
\<close>

definition call_method ::
  "('f, 'n) web3_instance \<Rightarrow> 'f jsvalue \<Rightarrow> string \<Rightarrow> ('f, 'n) host_function" where
  "call_method lib obj name args n =
     (case obj of
        JFun f \<Rightarrow>
          (if name = ''call''
           then invoke lib f (case args of [] \<Rightarrow> JUndefined | a # _ \<Rightarrow> a) (tl args) n
           else (Inl (TypeError (name @ '' is not a function'')), n))
      | _ \<Rightarrow>
          (case get_prop obj name of
             Inl e \<Rightarrow> (Inl e, n)
           | Inr (JFun f) \<Rightarrow> invoke lib f obj args n
           | Inr _ \<Rightarrow> (Inl (TypeError (name @ '' is not a function'')), n)))"

section \<open>The facade and its state\<close>

text \<open>
  \<^verbatim>\<open>class Web3Tools\<close> has the single field \<^verbatim>\<open>this.web3\<close>.  A method runs in a world made
  of the object it is called on, the outside state, and the lines written with
  \<^verbatim>\<open>console.error\<close>.
\<close>

record ('f, 'n) Web3Tools =
  web3 :: "('f, 'n) web3_instance"

record ('f, 'n) world =
  self :: "('f, 'n) Web3Tools"
  node :: 'n
  console :: "(string \<times> error) list"

type_synonym ('a, 'f, 'n) prog = "('f, 'n) world \<Rightarrow> (error + 'a) \<times> ('f, 'n) world"

definition return :: "'a \<Rightarrow> ('a, 'f, 'n) prog" where
  "return x w = (Inr x, w)"

definition throw :: "error \<Rightarrow> ('a, 'f, 'n) prog" where
  "throw e w = (Inl e, w)"

definition bind_prog :: "('a, 'f, 'n) prog \<Rightarrow> ('a \<Rightarrow> ('b, 'f, 'n) prog) \<Rightarrow> ('b, 'f, 'n) prog" where
  "bind_prog m k w = (case m w of (Inl e, w') \<Rightarrow> (Inl e, w') | (Inr x, w') \<Rightarrow> k x w')"

definition try_catch :: "('a, 'f, 'n) prog \<Rightarrow> (error \<Rightarrow> ('a, 'f, 'n) prog) \<Rightarrow> ('a, 'f, 'n) prog" where
  "try_catch m h w = (case m w of (Inl e, w') \<Rightarrow> h e w' | (Inr x, w') \<Rightarrow> (Inr x, w'))"

definition of_result :: "error + 'a \<Rightarrow> ('a, 'f, 'n) prog" where
  "of_result r w = (r, w)"

definition console_error :: "string \<Rightarrow> error \<Rightarrow> (unit, 'f, 'n) prog" where
  "console_error msg e w = (Inr (), w\<lparr>console := console w @ [(msg, e)]\<rparr>)"

text \<open>
  \<^verbatim>\<open>this.web3.<entry>(args)\<close>: the field is read from the object at the moment of the
  call, and the call acts on the outside state.
\<close>

definition this_web3 ::
  "(('f, 'n) web3_instance \<Rightarrow> ('f, 'n) host_function) \<Rightarrow> 'f jsvalue list \<Rightarrow> ('f jsvalue, 'f, 'n) prog" where
  "this_web3 entry args w =
     (case entry (web3 (self w)) args (node w) of (r, n') \<Rightarrow> (r, w\<lparr>node := n'\<rparr>))"

definition method_call :: "'f jsvalue \<Rightarrow> string \<Rightarrow> 'f jsvalue list \<Rightarrow> ('f jsvalue, 'f, 'n) prog" where
  "method_call obj name args w =
     (case call_method (web3 (self w)) obj name args (node w) of (r, n') \<Rightarrow> (r, w\<lparr>node := n'\<rparr>))"

text \<open>
  \<^verbatim>\<open>constructor(providerUrl) { this.web3 = new Web3(providerUrl); }\<close>  The class
  \<^verbatim>\<open>Web3\<close> is the library's, hence a parameter; constructing an instance may act on the
  outside state and may throw.
\<close>

type_synonym ('f, 'n) web3_class =
  "'f jsvalue \<Rightarrow> 'n \<Rightarrow> (error + ('f, 'n) web3_instance) \<times> 'n"

definition constructor ::
  "('f, 'n) web3_class \<Rightarrow> 'f jsvalue \<Rightarrow> 'n \<Rightarrow> (error + ('f, 'n) Web3Tools) \<times> 'n" where
  "constructor Web3 providerUrl n =
     (case Web3 providerUrl n of
        (Inl e, n') \<Rightarrow> (Inl e, n')
      | (Inr instance, n') \<Rightarrow> (Inr \<lparr>web3 = instance\<rparr>, n'))"

definition getBlockNumber :: "('f jsvalue, 'f, 'n) prog" where
  "getBlockNumber =
     try_catch
       (bind_prog (this_web3 eth_getBlockNumber []) (\<lambda>blockNumber.
        return blockNumber))
       (\<lambda>error.
        bind_prog (console_error ''Error fetching block number:'' error) (\<lambda>_.
        throw error))"

definition getBalance :: "'f jsvalue \<Rightarrow> ('f jsvalue, 'f, 'n) prog" where
  "getBalance address =
     try_catch
       (bind_prog (this_web3 eth_getBalance [address]) (\<lambda>balance.
        this_web3 utils_fromWei [balance, JStr ''ether'']))
       (\<lambda>error.
        bind_prog (console_error ''Error fetching balance:'' error) (\<lambda>_.
        throw error))"

definition callContractMethod ::
  "'f jsvalue \<Rightarrow> 'f jsvalue \<Rightarrow> 'f jsvalue \<Rightarrow> 'f jsvalue \<Rightarrow> ('f jsvalue, 'f, 'n) prog" where
  "callContractMethod contractAddress abi methodName methodParams =
     try_catch
       (bind_prog (this_web3 eth_Contract [abi, contractAddress]) (\<lambda>contract.
        bind_prog (of_result (get_prop contract ''methodsmethodName'')) (\<lambda>method.
        bind_prog (method_call method ''call'' []) (\<lambda>result.
        return result))))
       (\<lambda>error.
        bind_prog (console_error ''Error calling contract method:'' error) (\<lambda>_.
        throw error))"

definition deployContract ::
  "'f jsvalue \<Rightarrow> 'f jsvalue \<Rightarrow> 'f jsvalue \<Rightarrow> 'f jsvalue \<Rightarrow> ('f jsvalue, 'f, 'n) prog" where
  "deployContract abi bytecode fromAddress constructorParams =
     try_catch
       (bind_prog (this_web3 eth_Contract [abi]) (\<lambda>contract.
        bind_prog (method_call contract ''deploy''
                     [JObj [(''data'', bytecode), (''arguments'', constructorParams)]]) (\<lambda>deploy.
        bind_prog (method_call deploy ''send''
                     [JObj [(''from'', fromAddress), (''gas'', JNum 2000000)]]) (\<lambda>transaction.
        of_result (get_prop transaction ''contractAddress'')))))
       (\<lambda>error.
        bind_prog (console_error ''Error deploying contract:'' error) (\<lambda>_.
        throw error))"

definition sendTransaction ::
  "'f jsvalue \<Rightarrow> 'f jsvalue \<Rightarrow> 'f jsvalue \<Rightarrow> ('f jsvalue, 'f, 'n) prog" where
  "sendTransaction fromAddress toAddress amount =
     try_catch
       (bind_prog (this_web3 utils_toWei [amount, JStr ''ether'']) (\<lambda>value.
        bind_prog (this_web3 eth_sendTransaction
                     [JObj [(''from'', fromAddress), (''to'', toAddress), (''value'', value)]]) (\<lambda>tx.
        of_result (get_prop tx ''transactionHash''))))
       (\<lambda>error.
        bind_prog (console_error ''Error sending transaction:'' error) (\<lambda>_.
        throw error))"

section \<open>Callers\<close>

text \<open>
  A caller invokes one of the five methods on the object; a session is a sequence of such
  invocations on the same object, each started when the previous one has settled.
\<close>

datatype 'f request =
    GetBlockNumber
  | GetBalance "'f jsvalue"
  | CallContractMethod "'f jsvalue" "'f jsvalue" "'f jsvalue" "'f jsvalue"
  | DeployContract "'f jsvalue" "'f jsvalue" "'f jsvalue" "'f jsvalue"
  | SendTransaction "'f jsvalue" "'f jsvalue" "'f jsvalue"

fun perform :: "'f request \<Rightarrow> ('f jsvalue, 'f, 'n) prog" where
  "perform GetBlockNumber = getBlockNumber"
| "perform (GetBalance address) = getBalance address"
| "perform (CallContractMethod contractAddress abi methodName methodParams) =
     callContractMethod contractAddress abi methodName methodParams"
| "perform (DeployContract abi bytecode fromAddress constructorParams) =
     deployContract abi bytecode fromAddress constructorParams"
| "perform (SendTransaction fromAddress toAddress amount) =
     sendTransaction fromAddress toAddress amount"

text \<open>The first argument of the \<^verbatim>\<open>console.error\<close> call of each method.\<close>

fun log_prefix :: "'f request \<Rightarrow> string" where
  "log_prefix GetBlockNumber = ''Error fetching block number:''"
| "log_prefix (GetBalance _) = ''Error fetching balance:''"
| "log_prefix (CallContractMethod _ _ _ _) = ''Error calling contract method:''"
| "log_prefix (DeployContract _ _ _ _) = ''Error deploying contract:''"
| "log_prefix (SendTransaction _ _ _) = ''Error sending transaction:''"

text \<open>The call on \<^verbatim>\<open>this.web3\<close> each method starts with: its entry point and arguments.\<close>

fun entry_call :: "'f request \<Rightarrow> string \<times> 'f jsvalue list" where
  "entry_call GetBlockNumber = (''eth.getBlockNumber'', [])"
| "entry_call (GetBalance address) = (''eth.getBalance'', [address])"
| "entry_call (CallContractMethod contractAddress abi methodName methodParams) =
     (''eth.Contract'', [abi, contractAddress])"
| "entry_call (DeployContract abi bytecode fromAddress constructorParams) =
     (''eth.Contract'', [abi])"
| "entry_call (SendTransaction fromAddress toAddress amount) =
     (''utils.toWei'', [amount, JStr ''ether''])"

fun session ::
  "'f request list \<Rightarrow> ('f, 'n) world \<Rightarrow> (error + 'f jsvalue) list \<times> ('f, 'n) world" where
  "session [] w = ([], w)"
| "session (r # rs) w =
     (case perform r w of (res, w') \<Rightarrow>
        (case session rs w' of (ress, w'') \<Rightarrow> (res # ress, w'')))"

section \<open>Observing the calls made on the client\<close>

text \<open>
  To state which calls an operation makes on the client, with which arguments and in
  which order, any client can be wrapped so that it keeps a journal beside its own state:
  every entry point and every function value behaves as before and appends one line
  naming the instance it was reached through, what was called, the arguments and the
  outcome.
\<close>

datatype 'f target =
    EntryPoint string
  | FunctionValue 'f "'f jsvalue"

datatype ('l, 'f) call =
  Call (via: 'l) (target: "'f target") (arguments: "'f jsvalue list") (outcome: "error + 'f jsvalue")

definition observe ::
  "'l \<Rightarrow> 'f target \<Rightarrow> ('f, 'n) host_function \<Rightarrow> ('f, 'n \<times> ('l, 'f) call list) host_function" where
  "observe l t f args = (\<lambda>(n, journal).
     case f args n of (r, n') \<Rightarrow> (r, (n', journal @ [Call l t args r])))"

definition traced ::
  "'l \<Rightarrow> ('f, 'n) web3_instance \<Rightarrow> ('f, 'n \<times> ('l, 'f) call list) web3_instance" where
  "traced l lib =
     \<lparr> eth_getBlockNumber = observe l (EntryPoint ''eth.getBlockNumber'') (eth_getBlockNumber lib),
       eth_getBalance = observe l (EntryPoint ''eth.getBalance'') (eth_getBalance lib),
       eth_Contract = observe l (EntryPoint ''eth.Contract'') (eth_Contract lib),
       eth_sendTransaction = observe l (EntryPoint ''eth.sendTransaction'') (eth_sendTransaction lib),
       utils_fromWei = observe l (EntryPoint ''utils.fromWei'') (utils_fromWei lib),
       utils_toWei = observe l (EntryPoint ''utils.toWei'') (utils_toWei lib),
       invoke = (\<lambda>f receiver. observe l (FunctionValue f receiver) (invoke lib f receiver)) \<rparr>"

text \<open>
  \<^verbatim>\<open>new Web3(providerUrl)\<close> of the wrapped library: the instance is named by its URL, and
  the construction itself is a line of the journal (it carries no value: an instance is
  not a JavaScript value here).  A call is a use of an instance when it is any other line.
\<close>

definition construction :: "'f jsvalue \<Rightarrow> error + 'a \<Rightarrow> ('f jsvalue, 'f) call" where
  "construction providerUrl r =
     Call providerUrl (EntryPoint ''new Web3'') [providerUrl]
       (case r of Inl e \<Rightarrow> Inl e | Inr _ \<Rightarrow> Inr JUndefined)"

definition traced_Web3 ::
  "('f, 'n) web3_class \<Rightarrow> ('f, 'n \<times> ('f jsvalue, 'f) call list) web3_class" where
  "traced_Web3 Web3 providerUrl = (\<lambda>(n, journal).
     case Web3 providerUrl n of (r, n') \<Rightarrow>
       (case r of Inl e \<Rightarrow> Inl e | Inr instance \<Rightarrow> Inr (traced providerUrl instance),
        (n', journal @ [construction providerUrl r])))"

definition uses_instance :: "'l \<Rightarrow> ('l, 'f) call \<Rightarrow> bool" where
  "uses_instance l c \<longleftrightarrow> via c = l \<and> target c \<noteq> EntryPoint ''new Web3''"

definition journal :: "('f, 'n \<times> ('l, 'f) call list) world \<Rightarrow> ('l, 'f) call list" where
  "journal w = snd (node w)"

definition failed :: "error + 'a \<Rightarrow> bool" where
  "failed r = (case r of Inl _ \<Rightarrow> True | Inr _ \<Rightarrow> False)"

definition is_function_call :: "('l, 'f) call \<Rightarrow> bool" where
  "is_function_call c = (case target c of FunctionValue _ _ \<Rightarrow> True | EntryPoint _ \<Rightarrow> False)"

text \<open>The names of the properties an object literal was written with, in order.\<close>

definition property_names :: "'f jsvalue \<Rightarrow> string list" where
  "property_names v = (case v of JObj props \<Rightarrow> map fst props | _ \<Rightarrow> [])"

section \<open>A reference client\<close>

subsection \<open>Decimal Ether strings\<close>

text \<open>
  Modelled from the spec: the conversion utilities \<^verbatim>\<open>fromWei\<close> and \<^verbatim>\<open>toWei\<close> of the
  wrapped library are not part of the repository.  The spec fixes what they compute: an
  amount is a decimal string of an Ether quantity, \<open>10^18\<close> wei are one Ether, and a raw
  balance of \<open>2500000000000000000\<close> reads \<open>2.5\<close>.  \<open>fromWei_ether\<close> writes the whole
  part, then, unless the fraction is zero, a point and the eighteen fraction digits
  without their trailing zeros.  \<open>decimal_value\<close> is the number a decimal string denotes,
  \<open>toWei_ether\<close> the number of wei it stands for.
\<close>

text \<open>Decimal digits; \<open>digit_char\<close> is only ever applied to a number below ten.\<close>

definition digit_char :: "nat \<Rightarrow> char" where
  "digit_char d = ''0123456789'' ! d"

definition is_digit :: "char \<Rightarrow> bool" where
  "is_digit c = (c \<in> set ''0123456789'')"

definition digit_value :: "char \<Rightarrow> nat" where
  "digit_value c =
     (case map_of [(CHR ''0'', 0), (CHR ''1'', 1), (CHR ''2'', 2), (CHR ''3'', 3), (CHR ''4'', 4),
                   (CHR ''5'', 5), (CHR ''6'', 6), (CHR ''7'', 7), (CHR ''8'', 8), (CHR ''9'', 9)] c of
        Some d \<Rightarrow> d
      | None \<Rightarrow> 0)"

fun show_nat :: "nat \<Rightarrow> string" where
  "show_nat n = (if n < 10 then [digit_char n] else show_nat (n div 10) @ [digit_char (n mod 10)])"

definition read_nat :: "string \<Rightarrow> nat" where
  "read_nat s = foldl (\<lambda>acc c. 10 * acc + digit_value c) 0 s"

fun fixed_digits :: "nat \<Rightarrow> nat \<Rightarrow> string" where
  "fixed_digits 0 r = []"
| "fixed_digits (Suc k) r = fixed_digits k (r div 10) @ [digit_char (r mod 10)]"

definition strip_trailing_zeros :: "string \<Rightarrow> string" where
  "strip_trailing_zeros s = rev (dropWhile (\<lambda>c. c = CHR ''0'') (rev s))"

definition fromWei_ether :: "nat \<Rightarrow> string" where
  "fromWei_ether b =
     (let whole = show_nat (b div 10 ^ 18);
          fraction = strip_trailing_zeros (fixed_digits 18 (b mod 10 ^ 18))
      in if fraction = [] then whole else whole @ CHR ''.'' # fraction)"

definition split_decimal :: "string \<Rightarrow> string \<times> string" where
  "split_decimal s =
     (takeWhile (\<lambda>c. c \<noteq> CHR ''.'') s, drop 1 (dropWhile (\<lambda>c. c \<noteq> CHR ''.'') s))"

definition well_formed_decimal :: "string \<Rightarrow> bool" where
  "well_formed_decimal s =
     (case split_decimal s of (whole, fraction) \<Rightarrow>
        whole \<noteq> [] \<and> list_all is_digit whole \<and> list_all is_digit fraction \<and>
        (fraction = [] \<longleftrightarrow> CHR ''.'' \<notin> set s))"

definition decimal_value :: "string \<Rightarrow> rat option" where
  "decimal_value s =
     (case split_decimal s of (whole, fraction) \<Rightarrow>
        if well_formed_decimal s
        then Some (of_nat (read_nat whole) + of_nat (read_nat fraction) / 10 ^ length fraction)
        else None)"

definition toWei_ether :: "string \<Rightarrow> nat option" where
  "toWei_ether s =
     (case split_decimal s of (whole, fraction) \<Rightarrow>
        if well_formed_decimal s \<and> length fraction \<le> 18
        then Some (read_nat whole * 10 ^ 18 + read_nat fraction * 10 ^ (18 - length fraction))
        else None)"

subsection \<open>The node and the client in front of it\<close>

text \<open>
  Modelled from the spec: the wrapped client and the node behind it are not part of the
  repository.  This client does what the spec says of the underlying one: it reports the
  chain head and raw balances, rejects address formats it does not accept with
  \<open>InvalidAddressError\<close>, fails with \<open>ConnectionError\<close> when the node cannot be reached,
  with \<open>InsufficientFundsError\<close>, \<open>OutOfGasError\<close> and \<open>TransactionRevertedError\<close> as
  the spec names them, resolves a transfer to a receipt carrying \<^verbatim>\<open>transactionHash\<close>,
  and exposes the functions of an ABI under \<^verbatim>\<open>contract.methods\<close>.  On what the
  \<^verbatim>\<open>send\<close> of a deployment resolves to the spec is silent; here, as in web3.js, it
  resolves once the deployment is mined to the new contract instance, whose address is
  under \<^verbatim>\<open>options.address\<close>.
\<close>

record chain =
  reachable :: bool
  head :: nat
  accepts :: "string \<Rightarrow> bool"
  rawBalance :: "string \<Rightarrow> nat"
  views :: "string \<Rightarrow> int"
  deploy_gas :: nat
  deploy_reverts :: bool

datatype fn =
    ContractDeploy
  | DeploySend
  | ContractMethod string
  | TxCall string

definition arg :: "nat \<Rightarrow> 'f jsvalue list \<Rightarrow> 'f jsvalue" where
  "arg i args = (if i < length args then args ! i else JUndefined)"

definition read_prop :: "'f jsvalue \<Rightarrow> string \<Rightarrow> 'f jsvalue" where
  "read_prop v name = (case get_prop v name of Inr x \<Rightarrow> x | Inl _ \<Rightarrow> JUndefined)"

definition accepted_address :: "chain \<Rightarrow> 'f jsvalue \<Rightarrow> bool" where
  "accepted_address c v = (case v of JStr a \<Rightarrow> accepts c a | _ \<Rightarrow> False)"

definition address_of :: "'f jsvalue \<Rightarrow> string" where
  "address_of v = (case v of JStr a \<Rightarrow> a | _ \<Rightarrow> [])"

definition abi_function_names :: "'f jsvalue list \<Rightarrow> string list" where
  "abi_function_names items =
     concat (map (\<lambda>item.
       case (read_prop item ''type'', read_prop item ''name'') of
         (JStr t, JStr name) \<Rightarrow> if t = ''function'' then [name] else []
       | _ \<Rightarrow> []) items)"

definition spec_getBlockNumber :: "(fn, chain) host_function" where
  "spec_getBlockNumber args c =
     (if reachable c then (Inr (JNum (int (head c))), c) else (Inl ConnectionError, c))"

definition spec_getBalance :: "(fn, chain) host_function" where
  "spec_getBalance args c =
     (if \<not> accepted_address c (arg 0 args) then (Inl InvalidAddressError, c)
      else if \<not> reachable c then (Inl ConnectionError, c)
      else (Inr (JNum (int (rawBalance c (address_of (arg 0 args))))), c))"

definition spec_fromWei :: "(fn, chain) host_function" where
  "spec_fromWei args c =
     (case (arg 0 args, arg 1 args) of
        (JNum b, JStr unit) \<Rightarrow>
          if 0 \<le> b \<and> unit = ''ether'' then (Inr (JStr (fromWei_ether (nat b))), c)
          else (Inl (Error ''invalid number value''), c)
      | _ \<Rightarrow> (Inl (Error ''invalid number value''), c))"

definition spec_toWei :: "(fn, chain) host_function" where
  "spec_toWei args c =
     (case (arg 0 args, arg 1 args) of
        (JStr amount, JStr unit) \<Rightarrow>
          (case toWei_ether amount of
             Some wei \<Rightarrow>
               if unit = ''ether'' then (Inr (JNum (int wei)), c)
               else (Inl (Error ''invalid number value''), c)
           | None \<Rightarrow> (Inl (Error ''invalid number value''), c))
      | _ \<Rightarrow> (Inl (Error ''invalid number value''), c))"

definition spec_sendTransaction :: "(fn, chain) host_function" where
  "spec_sendTransaction args c =
     (let tx = arg 0 args; sender = read_prop tx ''from''; recipient = read_prop tx ''to'' in
      if \<not> accepted_address c sender \<or> \<not> accepted_address c recipient
      then (Inl InvalidAddressError, c)
      else if \<not> reachable c then (Inl ConnectionError, c)
      else (case read_prop tx ''value'' of
              JNum v \<Rightarrow>
                if v < 0 \<or> int (rawBalance c (address_of sender)) < v
                then (Inl InsufficientFundsError, c)
                else (Inr (JObj [(''transactionHash'', JStr (''0x'' @ show_nat (head c)))]),
                      c\<lparr>rawBalance :=
                          (\<lambda>a. if a = address_of recipient
                                then (if a = address_of sender then rawBalance c a
                                      else rawBalance c a + nat v)
                                else if a = address_of sender then rawBalance c a - nat v
                                else rawBalance c a)\<rparr>)
            | _ \<Rightarrow> (Inl (Error ''invalid number value''), c)))"

definition spec_Contract :: "(fn, chain) host_function" where
  "spec_Contract args c =
     (case arg 0 args of
        JArr items \<Rightarrow>
          (Inr (JObj [(''options'', JObj [(''address'', arg 1 args), (''jsonInterface'', JArr items)]),
                      (''methods'', JObj (map (\<lambda>name. (name, JFun (ContractMethod name)))
                                              (abi_function_names items))),
                      (''deploy'', JFun ContractDeploy)]), c)
      | _ \<Rightarrow> (Inl (Error ''You must provide the json interface of the contract''), c))"

text \<open>The contract instance for the same ABI at a given address.\<close>

definition instance_at :: "fn jsvalue \<Rightarrow> fn jsvalue \<Rightarrow> fn jsvalue" where
  "instance_at contract address =
     JObj [(''options'', JObj [(''address'', address),
                               (''jsonInterface'',
                                read_prop (read_prop contract ''options'') ''jsonInterface'')]),
           (''methods'', read_prop contract ''methods''),
           (''deploy'', JFun ContractDeploy)]"

fun spec_invoke :: "fn \<Rightarrow> fn jsvalue \<Rightarrow> (fn, chain) host_function" where
  "spec_invoke ContractDeploy contract args c =
     (Inr (JObj [(''_parent'', contract),
                 (''data'', read_prop (arg 0 args) ''data''),
                 (''arguments'', read_prop (arg 0 args) ''arguments''),
                 (''send'', JFun DeploySend)]), c)"
| "spec_invoke DeploySend deploy args c =
     (if \<not> accepted_address c (read_prop (arg 0 args) ''from'') then (Inl InvalidAddressError, c)
      else if \<not> reachable c then (Inl ConnectionError, c)
      else (case read_prop (arg 0 args) ''gas'' of
              JNum gas \<Rightarrow>
                if gas < int (deploy_gas c) then (Inl OutOfGasError, c)
                else if deploy_reverts c then (Inl TransactionRevertedError, c)
                else (Inr (instance_at (read_prop deploy ''_parent'')
                             (JStr (''0xC'' @ show_nat (head c)))),
                      c\<lparr>head := head c + 1\<rparr>)
            | _ \<Rightarrow> (Inl OutOfGasError, c)))"
| "spec_invoke (ContractMethod name) contract args c =
     (Inr (JObj [(''arguments'', JArr args), (''call'', JFun (TxCall name))]), c)"
| "spec_invoke (TxCall name) tx args c =
     (if reachable c then (Inr (JNum (views c name)), c) else (Inl ConnectionError, c))"

definition spec_web3 :: "(fn, chain) web3_instance" where
  "spec_web3 =
     \<lparr> eth_getBlockNumber = spec_getBlockNumber,
       eth_getBalance = spec_getBalance,
       eth_Contract = spec_Contract,
       eth_sendTransaction = spec_sendTransaction,
       utils_fromWei = spec_fromWei,
       utils_toWei = spec_toWei,
       invoke = spec_invoke \<rparr>"

definition spec_Web3 :: "(fn, chain) web3_class" where
  "spec_Web3 providerUrl c = (Inr spec_web3, c)"

text \<open>A facade over the reference client, in front of a given node, with an empty console.\<close>

definition spec_world :: "chain \<Rightarrow> (fn, chain) world" where
  "spec_world c = \<lparr> self = \<lparr> web3 = spec_web3 \<rparr>, node = c, console = [] \<rparr>"

text \<open>The provider URL of the examples.\<close>

definition provider :: "fn jsvalue" where
  "provider = JStr ''http://localhost:8545''"

text \<open>The same facade with the journal switched on, the instance named by its provider URL.\<close>

definition journalled_world ::
  "fn jsvalue \<Rightarrow> chain \<Rightarrow> (fn, chain \<times> (fn jsvalue, fn) call list) world" where
  "journalled_world providerUrl c =
     \<lparr> self = \<lparr> web3 = traced providerUrl spec_web3 \<rparr>, node = (c, []), console = [] \<rparr>"

text \<open>
  The node of the spec's scenario: reachable, head at block 100, the address \<open>0xABC\<close>
  holding 2500000000000000000 wei, every address format accepted.
\<close>

definition scenario :: chain where
  "scenario =
     \<lparr> reachable = True, head = 100, accepts = (\<lambda>a. True),
       rawBalance = (\<lambda>a. if a = ''0xABC'' then 2500000000000000000 else 0),
       views = (\<lambda>name. 0), deploy_gas = 1000000, deploy_reverts = False \<rparr>"

text \<open>An ABI with one read-only function, \<^verbatim>\<open>totalSupply\<close>.\<close>

definition token_abi :: "fn jsvalue" where
  "token_abi = JArr [JObj [(''type'', JStr ''function''), (''name'', JStr ''totalSupply'')]]"

section \<open>Orderly programs\<close>

text \<open>
  A program run on a facade whose client keeps a journal is orderly when it leaves the
  object and the console alone, reaches the client only through the instance the object
  holds, and stops at the first call that fails, handing that failure on as its own.
\<close>

definition orderly ::
  "'l \<Rightarrow> ('f, 'n) web3_instance \<Rightarrow> ('a, 'f, 'n \<times> ('l, 'f) call list) prog \<Rightarrow> bool" where
  "orderly l lib m \<longleftrightarrow>
     (\<forall>w res w'. web3 (self w) = traced l lib \<and> m w = (res, w') \<longrightarrow>
        self w' = self w \<and> console w' = console w \<and>
        (\<exists>new. journal w' = journal w @ new \<and>
               (\<forall>c\<in>set new. uses_instance l c) \<and>
               (\<forall>c\<in>set (butlast new). \<not> failed (outcome c)) \<and>
               (\<not> failed res \<longrightarrow> (\<forall>c\<in>set new. \<not> failed (outcome c))) \<and>
               (\<forall>e. new \<noteq> [] \<and> outcome (last new) = Inl e \<longrightarrow> res = Inl e)))"

section \<open>Composition of orderly programs\<close>

lemma orderly_return: "orderly l lib (return x)"
  by (simp add: orderly_def return_def failed_def)

lemma orderly_of_result: "orderly l lib (of_result r)"
  by (simp add: orderly_def of_result_def)

lemma orderly_observe:
  assumes "entry (traced l lib) = observe l t f" and "t \<noteq> EntryPoint ''new Web3''"
  shows "orderly l lib (this_web3 entry args)"
  using assms
  by (auto simp: orderly_def this_web3_def observe_def journal_def failed_def uses_instance_def
           split: prod.splits sum.splits)

lemma orderly_this_web3:
  "orderly l lib (this_web3 eth_getBlockNumber args)"
  "orderly l lib (this_web3 eth_getBalance args)"
  "orderly l lib (this_web3 eth_Contract args)"
  "orderly l lib (this_web3 eth_sendTransaction args)"
  "orderly l lib (this_web3 utils_fromWei args)"
  "orderly l lib (this_web3 utils_toWei args)"
  by (rule orderly_observe, simp add: traced_def, simp)+

lemma call_method_traced_args:
  "(\<exists>e. \<forall>n. call_method (traced l lib) obj name args n = (Inl e, n)) \<or>
   (\<exists>f receiver args'. (args' = args \<or> args' = tl args) \<and>
      (\<forall>n. call_method (traced l lib) obj name args n =
         observe l (FunctionValue f receiver) (invoke lib f receiver) args' n))"
proof (cases obj)
  case (JFun f)
  then show ?thesis
    by (cases "name = ''call''") (auto simp: call_method_def traced_def)
next
  case JUndefined
  then show ?thesis by (simp add: call_method_def get_prop_def)
next
  case JNull
  then show ?thesis by (simp add: call_method_def get_prop_def)
next
  case (JBool b)
  then show ?thesis by (simp add: call_method_def get_prop_def)
next
  case (JNum i)
  then show ?thesis by (simp add: call_method_def get_prop_def)
next
  case (JStr s)
  then show ?thesis by (simp add: call_method_def get_prop_def)
next
  case (JArr xs)
  then show ?thesis by (simp add: call_method_def get_prop_def)
next
  case (JObj props)
  show ?thesis
  proof (cases "map_of props name")
    case None
    with JObj show ?thesis by (simp add: call_method_def get_prop_def)
  next
    case (Some v)
    with JObj show ?thesis
      by (cases v) (auto simp: call_method_def get_prop_def traced_def)
  qed
qed

lemma call_method_traced:
  "(\<exists>e. \<forall>n. call_method (traced l lib) obj name args n = (Inl e, n)) \<or>
   (\<exists>f receiver args'. \<forall>n. call_method (traced l lib) obj name args n =
      observe l (FunctionValue f receiver) (invoke lib f receiver) args' n)"
  using call_method_traced_args [of l lib obj name args] by blast

lemma orderly_method_call: "orderly l lib (method_call obj name args)"
  unfolding orderly_def
proof (intro allI impI, elim conjE)
  fix w res w'
  assume inst: "web3 (self w) = traced l lib" and run: "method_call obj name args w = (res, w')"
  obtain n j where nw: "node w = (n, j)" by (cases "node w")
  let ?goal = "self w' = self w \<and> console w' = console w \<and>
        (\<exists>new. journal w' = journal w @ new \<and>
               (\<forall>c\<in>set new. uses_instance l c) \<and>
               (\<forall>c\<in>set (butlast new). \<not> failed (outcome c)) \<and>
               (\<not> failed res \<longrightarrow> (\<forall>c\<in>set new. \<not> failed (outcome c))) \<and>
               (\<forall>e. new \<noteq> [] \<and> outcome (last new) = Inl e \<longrightarrow> res = Inl e))"
  from call_method_traced [of l lib obj name args] show ?goal
  proof (elim disjE exE)
    fix e
    assume "\<forall>n. call_method (traced l lib) obj name args n = (Inl e, n)"
    with inst run have "res = Inl e" "w' = w\<lparr>node := node w\<rparr>"
      by (simp_all add: method_call_def)
    then show ?goal by (simp add: journal_def failed_def)
  next
    fix f receiver args'
    assume h: "\<forall>n. call_method (traced l lib) obj name args n =
      observe l (FunctionValue f receiver) (invoke lib f receiver) args' n"
    obtain r n' where inv: "invoke lib f receiver args' n = (r, n')"
      by (cases "invoke lib f receiver args' n")
    with h inst run nw have res: "res = r"
      and w': "w' = w\<lparr>node := (n', j @ [Call l (FunctionValue f receiver) args' r])\<rparr>"
      by (auto simp: method_call_def observe_def)
    show ?goal
      using res w' nw
      by (intro conjI exI [of _ "[Call l (FunctionValue f receiver) args' r]"])
         (simp_all add: journal_def failed_def uses_instance_def)
  qed
qed

lemma orderly_bind:
  assumes "orderly l lib m" and "\<And>x. orderly l lib (k x)"
  shows "orderly l lib (bind_prog m k)"
  unfolding orderly_def
proof (intro allI impI, elim conjE)
  fix w res w'
  assume inst: "web3 (self w) = traced l lib" and run: "bind_prog m k w = (res, w')"
  obtain r1 w1 where m: "m w = (r1, w1)" by (cases "m w")
  from assms(1) inst m obtain new1 where
    s1: "self w1 = self w" and c1: "console w1 = console w" and
    j1: "journal w1 = journal w @ new1" and
    v1: "\<forall>c\<in>set new1. uses_instance l c" and
    b1: "\<forall>c\<in>set (butlast new1). \<not> failed (outcome c)" and
    ok1: "\<not> failed r1 \<longrightarrow> (\<forall>c\<in>set new1. \<not> failed (outcome c))" and
    l1: "\<forall>e. new1 \<noteq> [] \<and> outcome (last new1) = Inl e \<longrightarrow> r1 = Inl e"
    unfolding orderly_def by blast
  let ?goal = "self w' = self w \<and> console w' = console w \<and>
        (\<exists>new. journal w' = journal w @ new \<and>
               (\<forall>c\<in>set new. uses_instance l c) \<and>
               (\<forall>c\<in>set (butlast new). \<not> failed (outcome c)) \<and>
               (\<not> failed res \<longrightarrow> (\<forall>c\<in>set new. \<not> failed (outcome c))) \<and>
               (\<forall>e. new \<noteq> [] \<and> outcome (last new) = Inl e \<longrightarrow> res = Inl e))"
  show ?goal
  proof (cases r1)
    case (Inl e)
    with run m have "res = Inl e" "w' = w1" by (simp_all add: bind_prog_def)
    with Inl s1 c1 j1 v1 b1 l1 show ?thesis by (auto simp: failed_def)
  next
    case (Inr x)
    with run m have kx: "k x w1 = (res, w')" by (simp add: bind_prog_def)
    from Inr ok1 have all1: "\<forall>c\<in>set new1. \<not> failed (outcome c)" by (simp add: failed_def)
    from inst s1 have inst1: "web3 (self w1) = traced l lib" by simp
    from assms(2) [of x] inst1 kx obtain new2 where
      s2: "self w' = self w1" and c2: "console w' = console w1" and
      j2: "journal w' = journal w1 @ new2" and
      v2: "\<forall>c\<in>set new2. uses_instance l c" and
      b2: "\<forall>c\<in>set (butlast new2). \<not> failed (outcome c)" and
      ok2: "\<not> failed res \<longrightarrow> (\<forall>c\<in>set new2. \<not> failed (outcome c))" and
      l2: "\<forall>e. new2 \<noteq> [] \<and> outcome (last new2) = Inl e \<longrightarrow> res = Inl e"
      unfolding orderly_def by blast
    have j: "journal w' = journal w @ (new1 @ new2)" using j1 j2 by simp
    have v: "\<forall>c\<in>set (new1 @ new2). uses_instance l c" using v1 v2 by auto
    have b: "\<forall>c\<in>set (butlast (new1 @ new2)). \<not> failed (outcome c)"
      using all1 b2 by (auto simp: butlast_append dest: in_set_butlastD)
    have ok: "\<not> failed res \<longrightarrow> (\<forall>c\<in>set (new1 @ new2). \<not> failed (outcome c))"
      using all1 ok2 by auto
    have l: "\<forall>e. new1 @ new2 \<noteq> [] \<and> outcome (last (new1 @ new2)) = Inl e \<longrightarrow> res = Inl e"
    proof (intro allI impI, elim conjE)
      fix e assume ne: "new1 @ new2 \<noteq> []" and out: "outcome (last (new1 @ new2)) = Inl e"
      show "res = Inl e"
      proof (cases "new2 = []")
        case True
        with ne out have "new1 \<noteq> []" "outcome (last new1) = Inl e" by simp_all
        then have "failed (outcome (last new1))" "last new1 \<in> set new1"
          by (simp_all add: failed_def)
        with all1 show ?thesis by blast
      next
        case False
        with out l2 show ?thesis by simp
      qed
    qed
    from s1 s2 c1 c2 j v b ok l show ?thesis by (intro conjI exI [of _ "new1 @ new2"]) simp_all
  qed
qed

lemma orderly_try_catch:
  assumes body: "orderly l lib body"
    and inst: "web3 (self w) = traced l lib"
    and run: "try_catch body (\<lambda>error. bind_prog (console_error msg error) (\<lambda>_. throw error)) w = (res, w')"
  shows "self w' = self w \<and>
         (\<forall>e. res = Inl e \<longrightarrow> console w' = console w @ [(msg, e)]) \<and>
         (\<not> failed res \<longrightarrow> console w' = console w) \<and>
         (\<exists>new. journal w' = journal w @ new \<and>
               (\<forall>c\<in>set new. uses_instance l c) \<and>
               (\<forall>c\<in>set (butlast new). \<not> failed (outcome c)) \<and>
               (\<not> failed res \<longrightarrow> (\<forall>c\<in>set new. \<not> failed (outcome c))) \<and>
               (\<forall>e. new \<noteq> [] \<and> outcome (last new) = Inl e \<longrightarrow> res = Inl e))"
proof -
  obtain r1 w1 where b: "body w = (r1, w1)" by (cases "body w")
  from body inst b obtain new where
    s1: "self w1 = self w" and c1: "console w1 = console w" and
    j1: "journal w1 = journal w @ new" and
    v1: "\<forall>c\<in>set new. uses_instance l c" and
    b1: "\<forall>c\<in>set (butlast new). \<not> failed (outcome c)" and
    ok1: "\<not> failed r1 \<longrightarrow> (\<forall>c\<in>set new. \<not> failed (outcome c))" and
    l1: "\<forall>e. new \<noteq> [] \<and> outcome (last new) = Inl e \<longrightarrow> r1 = Inl e"
    unfolding orderly_def by blast
  show ?thesis
  proof (cases r1)
    case (Inl e)
    with run b have "res = Inl e" "w' = w1\<lparr>console := console w1 @ [(msg, e)]\<rparr>"
      by (simp_all add: try_catch_def bind_prog_def console_error_def throw_def)
    with Inl s1 c1 j1 v1 b1 ok1 l1 show ?thesis
      by (intro conjI exI [of _ new]) (simp_all add: journal_def failed_def)
  next
    case (Inr x)
    with run b have "res = Inr x" "w' = w1" by (simp_all add: try_catch_def)
    with Inr s1 c1 j1 v1 b1 ok1 l1 show ?thesis
      by (intro conjI exI [of _ new]) (simp_all add: journal_def failed_def)
  qed
qed

lemmas orderly_intros =
  orderly_bind orderly_return orderly_of_result orderly_this_web3 orderly_method_call

lemma orderly_bodies:
  "orderly l lib (bind_prog (this_web3 eth_getBlockNumber []) (\<lambda>blockNumber. return blockNumber))"
  "orderly l lib (bind_prog (this_web3 eth_getBalance [address]) (\<lambda>balance.
        this_web3 utils_fromWei [balance, JStr ''ether'']))"
  "orderly l lib (bind_prog (this_web3 eth_Contract [abi, contractAddress]) (\<lambda>contract.
        bind_prog (of_result (get_prop contract ''methodsmethodName'')) (\<lambda>method.
        bind_prog (method_call method ''call'' []) (\<lambda>result.
        return result))))"
  "orderly l lib (bind_prog (this_web3 eth_Contract [abi]) (\<lambda>contract.
        bind_prog (method_call contract ''deploy''
                     [JObj [(''data'', bytecode), (''arguments'', constructorParams)]]) (\<lambda>deploy.
        bind_prog (method_call deploy ''send''
                     [JObj [(''from'', fromAddress), (''gas'', JNum 2000000)]]) (\<lambda>transaction.
        of_result (get_prop transaction ''contractAddress'')))))"
  "orderly l lib (bind_prog (this_web3 utils_toWei [amount, JStr ''ether'']) (\<lambda>value.
        bind_prog (this_web3 eth_sendTransaction
                     [JObj [(''from'', fromAddress), (''to'', toAddress), (''value'', value)]]) (\<lambda>tx.
        of_result (get_prop tx ''transactionHash''))))"
  by (intro orderly_intros)+

lemma perform_orderly:
  assumes inst: "web3 (self w) = traced l lib" and run: "perform r w = (res, w')"
  shows "self w' = self w \<and>
         (\<forall>e. res = Inl e \<longrightarrow> console w' = console w @ [(log_prefix r, e)]) \<and>
         (\<not> failed res \<longrightarrow> console w' = console w) \<and>
         (\<exists>new. journal w' = journal w @ new \<and>
               (\<forall>c\<in>set new. uses_instance l c) \<and>
               (\<forall>c\<in>set (butlast new). \<not> failed (outcome c)) \<and>
               (\<not> failed res \<longrightarrow> (\<forall>c\<in>set new. \<not> failed (outcome c))) \<and>
               (\<forall>e. new \<noteq> [] \<and> outcome (last new) = Inl e \<longrightarrow> res = Inl e))"
proof (cases r)
  case GetBlockNumber
  with run show ?thesis
    using orderly_try_catch [OF orderly_bodies(1) inst, of "log_prefix r" res w']
    by (simp add: getBlockNumber_def)
next
  case (GetBalance address)
  with run show ?thesis
    using orderly_try_catch [OF orderly_bodies(2) inst, of address "log_prefix r" res w']
    by (simp add: getBalance_def)
next
  case (CallContractMethod contractAddress abi methodName methodParams)
  with run show ?thesis
    using orderly_try_catch [OF orderly_bodies(3) inst, of abi contractAddress "log_prefix r" res w']
    by (simp add: callContractMethod_def)
next
  case (DeployContract abi bytecode fromAddress constructorParams)
  with run show ?thesis
    using orderly_try_catch [OF orderly_bodies(4) inst,
        of abi bytecode constructorParams fromAddress "log_prefix r" res w']
    by (simp add: deployContract_def)
next
  case (SendTransaction fromAddress toAddress amount)
  with run show ?thesis
    using orderly_try_catch [OF orderly_bodies(5) inst,
        of amount fromAddress toAddress "log_prefix r" res w']
    by (simp add: sendTransaction_def)
qed

section \<open>Single steps on a journalled client\<close>

lemma this_web3_traced:
  assumes "web3 (self w) = traced l lib"
  shows
    "this_web3 eth_getBlockNumber args w =
       (case eth_getBlockNumber lib args (fst (node w)) of (r, n') \<Rightarrow>
          (r, w\<lparr>node := (n', journal w @ [Call l (EntryPoint ''eth.getBlockNumber'') args r])\<rparr>))"
    "this_web3 eth_getBalance args w =
       (case eth_getBalance lib args (fst (node w)) of (r, n') \<Rightarrow>
          (r, w\<lparr>node := (n', journal w @ [Call l (EntryPoint ''eth.getBalance'') args r])\<rparr>))"
    "this_web3 eth_Contract args w =
       (case eth_Contract lib args (fst (node w)) of (r, n') \<Rightarrow>
          (r, w\<lparr>node := (n', journal w @ [Call l (EntryPoint ''eth.Contract'') args r])\<rparr>))"
    "this_web3 eth_sendTransaction args w =
       (case eth_sendTransaction lib args (fst (node w)) of (r, n') \<Rightarrow>
          (r, w\<lparr>node := (n', journal w @ [Call l (EntryPoint ''eth.sendTransaction'') args r])\<rparr>))"
    "this_web3 utils_fromWei args w =
       (case utils_fromWei lib args (fst (node w)) of (r, n') \<Rightarrow>
          (r, w\<lparr>node := (n', journal w @ [Call l (EntryPoint ''utils.fromWei'') args r])\<rparr>))"
    "this_web3 utils_toWei args w =
       (case utils_toWei lib args (fst (node w)) of (r, n') \<Rightarrow>
          (r, w\<lparr>node := (n', journal w @ [Call l (EntryPoint ''utils.toWei'') args r])\<rparr>))"
  using assms
  by (simp_all add: this_web3_def traced_def observe_def journal_def split: prod.splits)

lemma method_call_traced:
  assumes inst: "web3 (self w) = traced l lib"
  shows "(\<exists>e. method_call obj name args w = (Inl e, w)) \<or>
         (\<exists>f receiver args' r n'. (args' = args \<or> args' = tl args) \<and>
            invoke lib f receiver args' (fst (node w)) = (r, n') \<and>
            method_call obj name args w =
              (r, w\<lparr>node := (n', journal w @ [Call l (FunctionValue f receiver) args' r])\<rparr>))"
proof -
  from call_method_traced_args [of l lib obj name args]
  consider (no_call) e where "\<forall>n. call_method (traced l lib) obj name args n = (Inl e, n)"
    | (call) f receiver args' where "args' = args \<or> args' = tl args"
        "\<forall>n. call_method (traced l lib) obj name args n =
           observe l (FunctionValue f receiver) (invoke lib f receiver) args' n"
    by blast
  then show ?thesis
  proof cases
    case no_call
    then have "call_method (traced l lib) obj name args (node w) = (Inl e, node w)" by blast
    with inst have "method_call obj name args w = (Inl e, w)"
      by (simp add: method_call_def)
    then show ?thesis by blast
  next
    case call
    obtain r n' where inv: "invoke lib f receiver args' (fst (node w)) = (r, n')"
      by (cases "invoke lib f receiver args' (fst (node w))")
    obtain n j where nw: "node w = (n, j)" by (cases "node w")
    from call(2) have "call_method (traced l lib) obj name args (n, j) =
        observe l (FunctionValue f receiver) (invoke lib f receiver) args' (n, j)" by blast
    with inst inv nw have "method_call obj name args w =
        (r, w\<lparr>node := (n', journal w @ [Call l (FunctionValue f receiver) args' r])\<rparr>)"
      by (simp add: method_call_def observe_def journal_def)
    with call(1) inv show ?thesis by blast
  qed
qed

section \<open>Decimal strings denote what they were written from\<close>

declare show_nat.simps [simp del]

lemma digit_char_cases:
  assumes "d < 10"
  shows "is_digit (digit_char d) \<and> digit_value (digit_char d) = d \<and>
         (digit_char d = CHR ''0'' \<longleftrightarrow> d = 0)"
proof -
  from assms have "d \<in> {0, 1, 2, 3, 4, 5, 6, 7, 8, 9}" by auto
  then show ?thesis
    by (elim insertE emptyE) (simp_all add: digit_char_def is_digit_def digit_value_def)
qed

lemma is_digit_not_point: "is_digit c \<Longrightarrow> c \<noteq> CHR ''.''"
  by (auto simp: is_digit_def)

lemma read_nat_snoc: "read_nat (s @ [c]) = 10 * read_nat s + digit_value c"
  by (simp add: read_nat_def)

lemma read_nat_Nil: "read_nat [] = 0"
  by (simp add: read_nat_def)

lemma show_nat_digits: "list_all is_digit (show_nat n) \<and> show_nat n \<noteq> [] \<and> read_nat (show_nat n) = n"
proof (induction n rule: show_nat.induct)
  case (1 n)
  show ?case
  proof (cases "n < 10")
    case True
    then show ?thesis
      using digit_char_cases [of n] by (simp add: show_nat.simps [of n] read_nat_def)
  next
    case False
    then have "n mod 10 < 10" by simp
    with False 1 show ?thesis
      using digit_char_cases [of "n mod 10"]
      by (simp add: show_nat.simps [of n] read_nat_snoc)
  qed
qed

lemma fixed_digits_props:
  "length (fixed_digits k r) = k \<and> list_all is_digit (fixed_digits k r) \<and>
   read_nat (fixed_digits k r) = r mod 10 ^ k"
proof (induction k arbitrary: r)
  case 0
  show ?case by (simp add: read_nat_Nil)
next
  case (Suc k)
  have "r mod 10 < 10" by simp
  then have d: "is_digit (digit_char (r mod 10))" "digit_value (digit_char (r mod 10)) = r mod 10"
    using digit_char_cases [of "r mod 10"] by simp_all
  have "r mod (10 * 10 ^ k) = 10 * (r div 10 mod 10 ^ k) + r mod 10"
    by (simp add: mod_mult2_eq)
  with Suc [of "r div 10"] d show ?case
    by (simp add: read_nat_snoc)
qed

lemma read_nat_zeros: "read_nat (s @ replicate m (CHR ''0'')) = read_nat s * 10 ^ m"
proof (induction m)
  case 0
  show ?case by simp
next
  case (Suc m)
  have "s @ replicate (Suc m) (CHR ''0'') = (s @ replicate m (CHR ''0'')) @ [CHR ''0'']"
    by (simp add: replicate_append_same)
  then have "read_nat (s @ replicate (Suc m) (CHR ''0'')) =
      10 * read_nat (s @ replicate m (CHR ''0'')) + digit_value (CHR ''0'')"
    by (simp only: read_nat_snoc)
  with Suc show ?case by (simp add: digit_value_def)
qed

lemma strip_trailing_zeros_decomp:
  "\<exists>m. s = strip_trailing_zeros s @ replicate m (CHR ''0'')"
proof -
  let ?P = "\<lambda>c. c = CHR ''0''"
  let ?zs = "takeWhile ?P (rev s)"
  have "s = rev (?zs @ dropWhile ?P (rev s))" by simp
  also have "\<dots> = strip_trailing_zeros s @ rev ?zs"
    by (simp only: rev_append strip_trailing_zeros_def)
  finally have 1: "s = strip_trailing_zeros s @ rev ?zs" .
  have "\<forall>c\<in>set ?zs. c = CHR ''0''" by (auto dest: set_takeWhileD)
  then have "replicate (length ?zs) (CHR ''0'') = ?zs" by (rule replicate_length_same)
  then have "rev ?zs = replicate (length ?zs) (CHR ''0'')" by (metis rev_replicate)
  with 1 show ?thesis by metis
qed

lemma strip_trailing_zeros_digits:
  "list_all is_digit s \<Longrightarrow> list_all is_digit (strip_trailing_zeros s)"
  by (auto simp: strip_trailing_zeros_def list_all_iff dest: set_dropWhileD)

lemma digits_no_point: "list_all is_digit s \<Longrightarrow> \<forall>c\<in>set s. c \<noteq> CHR ''.''"
  by (auto simp: list_all_iff dest: is_digit_not_point)

lemma split_decimal_whole:
  assumes "list_all is_digit s"
  shows "split_decimal s = (s, [])"
proof -
  have n: "\<forall>c\<in>set s. c \<noteq> CHR ''.''" using digits_no_point [OF assms] .
  have t: "takeWhile (\<lambda>c. c \<noteq> CHR ''.'') s = s" using n by simp
  have d: "dropWhile (\<lambda>c. c \<noteq> CHR ''.'') s = []" using n by simp
  show ?thesis unfolding split_decimal_def t d by simp
qed

lemma split_decimal_point:
  assumes "list_all is_digit s"
  shows "split_decimal (s @ CHR ''.'' # t) = (s, t)"
proof -
  have n: "\<And>c. c \<in> set s \<Longrightarrow> c \<noteq> CHR ''.''" using digits_no_point [OF assms] by blast
  have t: "takeWhile (\<lambda>c. c \<noteq> CHR ''.'') (s @ CHR ''.'' # t) = s"
    using n by simp
  have d: "dropWhile (\<lambda>c. c \<noteq> CHR ''.'') (s @ CHR ''.'' # t) = CHR ''.'' # t"
    using n by simp
  show ?thesis unfolding split_decimal_def t d by simp
qed

lemma fromWei_ether_value:
  "well_formed_decimal (fromWei_ether b) \<and>
   decimal_value (fromWei_ether b) = Some (of_nat b / 10 ^ 18) \<and>
   toWei_ether (fromWei_ether b) = Some b"
proof -
  define q where "q = b div 10 ^ 18"
  define r where "r = b mod 10 ^ 18"
  define whole where "whole = show_nat q"
  define fraction where "fraction = strip_trailing_zeros (fixed_digits 18 r)"
  have b: "b = q * 10 ^ 18 + r" by (simp add: q_def r_def)
  have r18: "r < 10 ^ 18" by (simp add: r_def)
  have whole: "list_all is_digit whole" "whole \<noteq> []" "read_nat whole = q"
    using show_nat_digits [of q] by (simp_all add: whole_def)
  have fixed: "length (fixed_digits 18 r) = 18" "list_all is_digit (fixed_digits 18 r)"
    "read_nat (fixed_digits 18 r) = r"
    using fixed_digits_props [of 18 r] r18 by simp_all
  obtain m where m: "fixed_digits 18 r = fraction @ replicate m (CHR ''0'')"
    using strip_trailing_zeros_decomp [of "fixed_digits 18 r"] by (auto simp: fraction_def)
  have fraction: "list_all is_digit fraction"
    using fixed(2) by (simp add: fraction_def strip_trailing_zeros_digits)
  have len: "length fraction + m = 18" using fixed(1) m by (metis length_append length_replicate)
  have rd: "r = read_nat fraction * 10 ^ m" using fixed(3) m read_nat_zeros by metis
  have fw: "fromWei_ether b = (if fraction = [] then whole else whole @ CHR ''.'' # fraction)"
    by (simp add: fromWei_ether_def Let_def whole_def fraction_def q_def r_def)
  show ?thesis
  proof (cases "fraction = []")
    case True
    with rd have r0: "r = 0" by (simp add: read_nat_Nil)
    from True fw have s: "fromWei_ether b = whole" by simp
    have sp: "split_decimal whole = (whole, [])" using whole(1) by (rule split_decimal_whole)
    have wf: "well_formed_decimal whole"
      using whole(1,2) sp digits_no_point [OF whole(1)] by (auto simp: well_formed_decimal_def)
    have bq: "b = q * 10 ^ 18" using b r0 by simp
    have v: "of_nat b / 10 ^ 18 = (of_nat q :: rat)" unfolding bq by simp
    have dv: "decimal_value whole = Some (of_nat q)"
      using sp wf whole(3) by (simp add: decimal_value_def read_nat_Nil)
    have tw: "toWei_ether whole = Some (q * 10 ^ 18)"
      using sp wf whole(3) by (simp add: toWei_ether_def read_nat_Nil)
    show ?thesis unfolding s using wf dv tw v bq by simp
  next
    case False
    with fw have s: "fromWei_ether b = whole @ CHR ''.'' # fraction" by simp
    have sp: "split_decimal (whole @ CHR ''.'' # fraction) = (whole, fraction)"
      using whole(1) by (rule split_decimal_point)
    have wf: "well_formed_decimal (whole @ CHR ''.'' # fraction)"
      using whole(1,2) fraction False sp by (simp add: well_formed_decimal_def)
    have p: "(10::rat) ^ 18 = 10 ^ length fraction * 10 ^ m"
      using len by (metis power_add)
    have "(of_nat b :: rat) / 10 ^ 18 = of_nat q + of_nat r / 10 ^ 18"
      unfolding b by (simp add: add_divide_distrib)
    also have "of_nat r / (10::rat) ^ 18 = of_nat (read_nat fraction) / 10 ^ length fraction"
      unfolding p rd by simp
    finally have v: "(of_nat b :: rat) / 10 ^ 18 =
        of_nat q + of_nat (read_nat fraction) / 10 ^ length fraction" .
    have m18: "18 - length fraction = m" using len by simp
    have l18: "length fraction \<le> 18" using len by simp
    have dv: "decimal_value (whole @ CHR ''.'' # fraction) =
        Some (of_nat q + of_nat (read_nat fraction) / 10 ^ length fraction)"
      using sp wf whole(3) by (simp add: decimal_value_def)
    have tw: "toWei_ether (whole @ CHR ''.'' # fraction) = Some (q * 10 ^ 18 + read_nat fraction * 10 ^ m)"
      using sp wf whole(3) l18 m18 by (simp add: toWei_ether_def)
    have tb: "q * 10 ^ 18 + read_nat fraction * 10 ^ m = b" unfolding b rd ..
    show ?thesis unfolding s using wf dv tw by (simp only: v tb simp_thms)
  qed
qed

section \<open>Evaluating the reference client\<close>

lemma fixed_digits_numeral:
  "fixed_digits (numeral k) r = fixed_digits (pred_numeral k) (r div 10) @ [digit_char (r mod 10)]"
  unfolding numeral_eq_Suc fixed_digits.simps ..

lemma digit_char_numerals:
  "digit_char 0 = CHR ''0''" "digit_char 1 = CHR ''1''" "digit_char 2 = CHR ''2''"
  "digit_char 3 = CHR ''3''" "digit_char 4 = CHR ''4''" "digit_char 5 = CHR ''5''"
  "digit_char 6 = CHR ''6''" "digit_char 7 = CHR ''7''" "digit_char 8 = CHR ''8''"
  "digit_char 9 = CHR ''9''" "digit_char (Suc 0) = CHR ''1''"
  by (simp_all add: digit_char_def)

lemmas decimal_eval =
  fromWei_ether_def strip_trailing_zeros_def show_nat.simps fixed_digits_numeral
  digit_char_numerals toWei_ether_def decimal_value_def well_formed_decimal_def
  split_decimal_def is_digit_def read_nat_def digit_value_def

lemmas prog_eval =
  try_catch_def bind_prog_def return_def throw_def of_result_def console_error_def
  this_web3_def method_call_def call_method_def get_prop_def

lemmas spec_eval =
  spec_world_def journalled_world_def spec_web3_def spec_getBlockNumber_def spec_getBalance_def
  spec_fromWei_def spec_toWei_def spec_sendTransaction_def spec_Contract_def
  arg_def read_prop_def accepted_address_def address_of_def abi_function_names_def
  scenario_def token_abi_def traced_def observe_def journal_def Let_def
  instance_at_def provider_def

section \<open>Calling a member that is a function\<close>

lemma call_method_member:
  "get_prop obj name = Inr (JFun f) \<Longrightarrow> call_method lib obj name args n = invoke lib f obj args n"
  by (cases obj) (simp_all add: call_method_def get_prop_def)

lemma method_call_member:
  assumes "web3 (self w) = traced l lib" and "get_prop obj name = Inr (JFun f)"
  shows "method_call obj name args w =
     (case invoke lib f obj args (fst (node w)) of (r, n') \<Rightarrow>
        (r, w\<lparr>node := (n', journal w @ [Call l (FunctionValue f obj) args r])\<rparr>))"
  using assms
  by (simp add: method_call_def call_method_member traced_def observe_def journal_def
      split: prod.splits)

section \<open>The journal of a transfer\<close>

lemma sendTransaction_journal:
  assumes "web3 (self w) = traced l lib"
  shows "journal (snd (sendTransaction fromAddress toAddress amount w)) =
           journal w @
           (case utils_toWei lib [amount, JStr ''ether''] (fst (node w)) of
              (Inl e, n1) \<Rightarrow> [Call l (EntryPoint ''utils.toWei'') [amount, JStr ''ether''] (Inl e)]
            | (Inr wei, n1) \<Rightarrow>
                [Call l (EntryPoint ''utils.toWei'') [amount, JStr ''ether''] (Inr wei),
                 Call l (EntryPoint ''eth.sendTransaction'')
                   [JObj [(''from'', fromAddress), (''to'', toAddress), (''value'', wei)]]
                   (fst (eth_sendTransaction lib
                      [JObj [(''from'', fromAddress), (''to'', toAddress), (''value'', wei)]] n1))])"
proof -
  obtain r1 n1 where t: "utils_toWei lib [amount, JStr ''ether''] (fst (node w)) = (r1, n1)"
    by (cases "utils_toWei lib [amount, JStr ''ether''] (fst (node w))")
  let ?w1 = "w\<lparr>node := (n1, journal w @ [Call l (EntryPoint ''utils.toWei'') [amount, JStr ''ether''] r1])\<rparr>"
  have step1: "this_web3 utils_toWei [amount, JStr ''ether''] w = (r1, ?w1)"
    using this_web3_traced(6) [OF assms] t by simp
  have inst1: "web3 (self ?w1) = traced l lib" using assms by simp
  show ?thesis
  proof (cases r1)
    case (Inl e)
    with step1 t show ?thesis
      by (simp add: sendTransaction_def try_catch_def bind_prog_def console_error_def throw_def
          journal_def)
  next
    case (Inr wei)
    let ?tx = "JObj [(''from'', fromAddress), (''to'', toAddress), (''value'', wei)]"
    obtain r2 n2 where s: "eth_sendTransaction lib [?tx] n1 = (r2, n2)"
      by (cases "eth_sendTransaction lib [?tx] n1")
    have step2: "this_web3 eth_sendTransaction [?tx] ?w1 =
        (r2, ?w1\<lparr>node := (n2, journal ?w1 @ [Call l (EntryPoint ''eth.sendTransaction'') [?tx] r2])\<rparr>)"
      using this_web3_traced(4) [OF inst1] s by simp
    from Inr step1 step2 t s show ?thesis
      by (cases r2; cases "get_prop (projr r2) ''transactionHash''")
         (simp_all add: sendTransaction_def try_catch_def bind_prog_def console_error_def throw_def
          of_result_def journal_def)
  qed
qed

section \<open>getBlockNumber\<close>

text \<open>
  C6.  \<^verbatim>\<open>getBlockNumber\<close> takes no argument and hands on, unchanged, the block number
  the client resolves to: whenever \<^verbatim>\<open>web3.eth.getBlockNumber()\<close> resolves to a value, the
  operation returns that value and logs nothing.  In front of a reachable node the
  reference client reports the chain head, a natural number; with the head at block 100
  the operation returns 100.
\<close>

theorem getBlockNumber_returns_chain_head:
  "(eth_getBlockNumber (web3 (self w)) [] (node w) = (Inr blockNumber, n') \<longrightarrow>
      getBlockNumber w = (Inr blockNumber, w\<lparr>node := n'\<rparr>)) \<and>
   (reachable c \<longrightarrow>
      fst (getBlockNumber (spec_world c)) = Inr (JNum (int (head c))) \<and> 0 \<le> int (head c))"
  by (simp add: getBlockNumber_def prog_eval spec_world_def spec_web3_def spec_getBlockNumber_def)

theorem getBlockNumber_returns_chain_head_witness:
  "eth_getBlockNumber (web3 (self (spec_world scenario))) [] (node (spec_world scenario)) =
     (Inr (JNum 100), scenario) \<and>
   getBlockNumber (spec_world scenario) = (Inr (JNum 100), spec_world scenario) \<and>
   reachable scenario \<and>
   fst (getBlockNumber (spec_world scenario)) = Inr (JNum 100)"
proof -
  have call: "eth_getBlockNumber (web3 (self (spec_world scenario))) [] (node (spec_world scenario)) =
      (Inr (JNum 100), scenario)"
    by (simp add: spec_eval)
  have up: "reachable scenario" by (simp add: scenario_def)
  have same: "(spec_world scenario)\<lparr>node := scenario\<rparr> = spec_world scenario"
    by (simp add: spec_world_def)
  have hd: "int (head scenario) = 100" by (simp add: scenario_def)
  from getBlockNumber_returns_chain_head
    [where w = "spec_world scenario" and blockNumber = "JNum 100" and n' = scenario and c = scenario]
    call up same hd
  show ?thesis by simp
qed

section \<open>getBalance\<close>

text \<open>
  C1.  \<^verbatim>\<open>getBalance\<close> returns what \<^verbatim>\<open>fromWei(balance, 'ether')\<close> resolves to for the
  raw balance the client reports.  With the reference client, for every address \<open>A\<close> the
  client accepts on a reachable node, the result is the decimal string written from
  \<open>rawBalance A\<close>; that string denotes \<open>rawBalance A / 10^18\<close> and converts back to
  \<open>rawBalance A\<close> wei.  For a raw balance of 2500000000000000000 it is \<open>2.5\<close>.
\<close>

theorem getBalance_converts_wei_to_ether:
  "(eth_getBalance (web3 (self w)) [address] (node w) = (Inr balance, n1) \<and>
    utils_fromWei (web3 (self w)) [balance, JStr ''ether''] n1 = (Inr ether, n2) \<longrightarrow>
      getBalance address w = (Inr ether, w\<lparr>node := n2\<rparr>)) \<and>
   (accepts c A \<and> reachable c \<longrightarrow>
      fst (getBalance (JStr A) (spec_world c)) = Inr (JStr (fromWei_ether (rawBalance c A))) \<and>
      decimal_value (fromWei_ether (rawBalance c A)) = Some (of_nat (rawBalance c A) / 10 ^ 18) \<and>
      toWei_ether (fromWei_ether (rawBalance c A)) = Some (rawBalance c A))"
proof (intro conjI impI)
  assume "eth_getBalance (web3 (self w)) [address] (node w) = (Inr balance, n1) \<and>
    utils_fromWei (web3 (self w)) [balance, JStr ''ether''] n1 = (Inr ether, n2)"
  then show "getBalance address w = (Inr ether, w\<lparr>node := n2\<rparr>)"
    by (simp add: getBalance_def try_catch_def bind_prog_def this_web3_def)
next
  assume "accepts c A \<and> reachable c"
  then show "fst (getBalance (JStr A) (spec_world c)) = Inr (JStr (fromWei_ether (rawBalance c A)))"
    by (simp add: getBalance_def try_catch_def bind_prog_def this_web3_def spec_world_def
        spec_web3_def spec_getBalance_def spec_fromWei_def arg_def accepted_address_def
        address_of_def)
next
  show "decimal_value (fromWei_ether (rawBalance c A)) = Some (of_nat (rawBalance c A) / 10 ^ 18)"
    using fromWei_ether_value [of "rawBalance c A"] by blast
next
  show "toWei_ether (fromWei_ether (rawBalance c A)) = Some (rawBalance c A)"
    using fromWei_ether_value [of "rawBalance c A"] by blast
qed

theorem getBalance_converts_wei_to_ether_witness:
  "accepts scenario ''0xABC'' \<and> reachable scenario \<and>
   rawBalance scenario ''0xABC'' = 2500000000000000000 \<and>
   eth_getBalance (web3 (self (spec_world scenario))) [JStr ''0xABC''] (node (spec_world scenario)) =
     (Inr (JNum 2500000000000000000), scenario) \<and>
   utils_fromWei (web3 (self (spec_world scenario))) [JNum 2500000000000000000, JStr ''ether'']
     scenario = (Inr (JStr ''2.5''), scenario) \<and>
   getBalance (JStr ''0xABC'') (spec_world scenario) = (Inr (JStr ''2.5''), spec_world scenario) \<and>
   decimal_value ''2.5'' = Some (2500000000000000000 / 10 ^ 18)"
proof -
  have ok: "accepts scenario ''0xABC'' \<and> reachable scenario" by (simp add: scenario_def)
  have raw: "rawBalance scenario ''0xABC'' = 2500000000000000000" by (simp add: scenario_def)
  have str: "fromWei_ether 2500000000000000000 = ''2.5''" by (simp add: decimal_eval)
  have read: "eth_getBalance (web3 (self (spec_world scenario))) [JStr ''0xABC'']
      (node (spec_world scenario)) = (Inr (JNum 2500000000000000000), scenario)"
    by (simp add: spec_eval)
  have conv: "utils_fromWei (web3 (self (spec_world scenario)))
      [JNum 2500000000000000000, JStr ''ether''] scenario = (Inr (JStr ''2.5''), scenario)"
    by (simp add: spec_eval decimal_eval)
  have same: "(spec_world scenario)\<lparr>node := scenario\<rparr> = spec_world scenario"
    by (simp add: spec_world_def)
  note both = getBalance_converts_wei_to_ether
    [where w = "spec_world scenario" and address = "JStr ''0xABC''"
       and balance = "JNum 2500000000000000000" and ?n1.0 = scenario
       and ether = "JStr ''2.5''" and ?n2.0 = scenario and c = scenario and A = "''0xABC''"]
  from both [THEN conjunct1] read conv same
  have run: "getBalance (JStr ''0xABC'') (spec_world scenario) = (Inr (JStr ''2.5''), spec_world scenario)"
    by simp
  from both [THEN conjunct2] ok
  have "decimal_value (fromWei_ether (rawBalance scenario ''0xABC'')) =
      Some (of_nat (rawBalance scenario ''0xABC'') / 10 ^ 18)"
    by blast
  then have "decimal_value ''2.5'' = Some (2500000000000000000 / 10 ^ 18)"
    unfolding raw str by simp
  with ok raw read conv run show ?thesis by blast
qed

section \<open>callContractMethod\<close>

text \<open>
  C2.  The code at two inputs.  The contract built from an ABI with the one function
  \<^verbatim>\<open>totalSupply\<close> has that function, and no other, under \<^verbatim>\<open>methods\<close>.
  Asked for \<^verbatim>\<open>missing\<close>, the operation fails with the \<open>TypeError\<close> of reading
  \<^verbatim>\<open>call\<close> of \<^verbatim>\<open>undefined\<close>, not with \<open>InvalidMethodError\<close>.  Asked for
  \<^verbatim>\<open>totalSupply\<close> while the node cannot be reached, it fails with the same \<open>TypeError\<close>,
  not with \<open>ConnectionError\<close>, and the outside state is untouched.
\<close>

theorem callContractMethod_fails_with_TypeError:
  "fst (eth_Contract spec_web3 [token_abi, JStr ''0xC0DE''] scenario) =
     Inr (JObj [(''options'', JObj [(''address'', JStr ''0xC0DE''), (''jsonInterface'', token_abi)]),
                (''methods'', JObj [(''totalSupply'', JFun (ContractMethod ''totalSupply''))]),
                (''deploy'', JFun ContractDeploy)]) \<and>
   callContractMethod (JStr ''0xC0DE'') token_abi (JStr ''missing'') (JArr []) (spec_world scenario) =
     (Inl (TypeError ''Cannot read properties of undefined (reading call)''),
      (spec_world scenario)\<lparr>console := [(''Error calling contract method:'',
         TypeError ''Cannot read properties of undefined (reading call)'')]\<rparr>) \<and>
   callContractMethod (JStr ''0xC0DE'') token_abi (JStr ''totalSupply'') (JArr [])
       (spec_world (scenario\<lparr>reachable := False\<rparr>)) =
     (Inl (TypeError ''Cannot read properties of undefined (reading call)''),
      (spec_world (scenario\<lparr>reachable := False\<rparr>))\<lparr>console := [(''Error calling contract method:'',
         TypeError ''Cannot read properties of undefined (reading call)'')]\<rparr>)"
  by (simp add: callContractMethod_def prog_eval spec_eval)

text \<open>
  C3.  Let the contract objects of the client have no member called
  \<^verbatim>\<open>methodsmethodName\<close>, as is the case for a client that keeps the methods of the ABI
  under \<^verbatim>\<open>contract.methods\<close>.  Then for every address, ABI, method name and parameter
  list \<^verbatim>\<open>callContractMethod\<close> returns no value: it fails with the error of the
  contract's construction if that fails, and otherwise always with the same
  \<open>TypeError\<close> of reading \<^verbatim>\<open>call\<close> of \<^verbatim>\<open>undefined\<close>.  The construction is the only call
  made on the client, so no method is dispatched, and the failure is logged.
\<close>

theorem callContractMethod_never_dispatches:
  assumes inst: "web3 (self w) = traced l lib"
    and shape: "\<And>contract n1. eth_Contract lib [abi, contractAddress] (fst (node w)) = (Inr contract, n1)
        \<Longrightarrow> get_prop contract ''methodsmethodName'' = Inr JUndefined"
  shows "fst (callContractMethod contractAddress abi methodName methodParams w) =
           Inl (case fst (eth_Contract lib [abi, contractAddress] (fst (node w))) of
                  Inl e \<Rightarrow> e
                | Inr contract \<Rightarrow> TypeError ''Cannot read properties of undefined (reading call)'') \<and>
         journal (snd (callContractMethod contractAddress abi methodName methodParams w)) =
           journal w @
           [Call l (EntryPoint ''eth.Contract'') [abi, contractAddress]
              (fst (eth_Contract lib [abi, contractAddress] (fst (node w))))] \<and>
         console (snd (callContractMethod contractAddress abi methodName methodParams w)) =
           console w @
           [(''Error calling contract method:'',
             case fst (eth_Contract lib [abi, contractAddress] (fst (node w))) of
               Inl e \<Rightarrow> e
             | Inr contract \<Rightarrow> TypeError ''Cannot read properties of undefined (reading call)'')]"
proof -
  obtain r0 n1 where c: "eth_Contract lib [abi, contractAddress] (fst (node w)) = (r0, n1)"
    by (cases "eth_Contract lib [abi, contractAddress] (fst (node w))")
  let ?w1 = "w\<lparr>node := (n1, journal w @ [Call l (EntryPoint ''eth.Contract'') [abi, contractAddress] r0])\<rparr>"
  have step: "this_web3 eth_Contract [abi, contractAddress] w = (r0, ?w1)"
    using this_web3_traced(3) [OF inst] c by simp
  show ?thesis
  proof (cases r0)
    case (Inl e)
    with step c show ?thesis
      by (simp add: callContractMethod_def try_catch_def bind_prog_def console_error_def
          throw_def journal_def)
  next
    case (Inr contract)
    with shape c have "get_prop contract ''methodsmethodName'' = Inr JUndefined" by simp
    with Inr step c show ?thesis
      by (simp add: callContractMethod_def try_catch_def bind_prog_def console_error_def
          throw_def journal_def of_result_def method_call_def call_method_def get_prop_def)
  qed
qed

theorem callContractMethod_never_dispatches_witness:
  "web3 (self (journalled_world provider scenario)) = traced provider spec_web3 \<and>
   fst (eth_Contract spec_web3 [token_abi, JStr ''0xC0DE'']
          (fst (node (journalled_world provider scenario)))) =
     Inr (JObj [(''options'', JObj [(''address'', JStr ''0xC0DE''), (''jsonInterface'', token_abi)]),
                (''methods'', JObj [(''totalSupply'', JFun (ContractMethod ''totalSupply''))]),
                (''deploy'', JFun ContractDeploy)]) \<and>
   get_prop (JObj [(''options'', JObj [(''address'', JStr ''0xC0DE''), (''jsonInterface'', token_abi)]),
                   (''methods'', JObj [(''totalSupply'', JFun (ContractMethod ''totalSupply''))]),
                   (''deploy'', JFun ContractDeploy)]) ''methodsmethodName'' = Inr JUndefined \<and>
   fst (callContractMethod (JStr ''0xC0DE'') token_abi (JStr ''totalSupply'') (JArr [])
          (journalled_world provider scenario)) =
     Inl (TypeError ''Cannot read properties of undefined (reading call)'') \<and>
   journal (snd (callContractMethod (JStr ''0xC0DE'') token_abi (JStr ''totalSupply'') (JArr [])
                   (journalled_world provider scenario))) =
     [Call provider (EntryPoint ''eth.Contract'') [token_abi, JStr ''0xC0DE'']
        (Inr (JObj [(''options'', JObj [(''address'', JStr ''0xC0DE''), (''jsonInterface'', token_abi)]),
                    (''methods'', JObj [(''totalSupply'', JFun (ContractMethod ''totalSupply''))]),
                    (''deploy'', JFun ContractDeploy)]))] \<and>
   console (snd (callContractMethod (JStr ''0xC0DE'') token_abi (JStr ''totalSupply'') (JArr [])
                   (journalled_world provider scenario))) =
     [(''Error calling contract method:'',
       TypeError ''Cannot read properties of undefined (reading call)'')]"
proof -
  let ?w = "journalled_world provider scenario"
  let ?contract = "JObj [(''options'', JObj [(''address'', JStr ''0xC0DE''), (''jsonInterface'', token_abi)]),
                   (''methods'', JObj [(''totalSupply'', JFun (ContractMethod ''totalSupply''))]),
                   (''deploy'', JFun ContractDeploy)]"
  have inst: "web3 (self ?w) = traced provider spec_web3"
    by (simp add: journalled_world_def)
  have made: "eth_Contract spec_web3 [token_abi, JStr ''0xC0DE''] (fst (node ?w)) =
      (Inr ?contract, scenario)"
    by (simp add: spec_eval get_prop_def)
  have absent: "get_prop ?contract ''methodsmethodName'' = Inr JUndefined"
    by (simp add: get_prop_def)
  have shape: "\<And>contract n1.
      eth_Contract spec_web3 [token_abi, JStr ''0xC0DE''] (fst (node ?w)) = (Inr contract, n1)
      \<Longrightarrow> get_prop contract ''methodsmethodName'' = Inr JUndefined"
    using absent unfolding made by simp
  have empty: "journal ?w = []" "console ?w = []"
    by (simp_all add: journalled_world_def journal_def)
  from callContractMethod_never_dispatches
    [where w = ?w and l = provider and lib = spec_web3 and abi = token_abi
       and contractAddress = "JStr ''0xC0DE''" and methodName = "JStr ''totalSupply''"
       and methodParams = "JArr []", OF inst shape]
    inst made absent empty
  show ?thesis by simp
qed

text \<open>
  C9.  The outcome of \<^verbatim>\<open>callContractMethod\<close> does not depend on \<^verbatim>\<open>methodParams\<close>: for
  any two parameter lists the operation gives the same result and the same world, and
  whatever function value it ends up calling on the client, it calls with an empty
  argument list.
\<close>

theorem callContractMethod_ignores_methodParams:
  "callContractMethod contractAddress abi methodName p1 w =
     callContractMethod contractAddress abi methodName p2 w \<and>
   (web3 (self w) = traced l lib \<longrightarrow>
      (\<exists>new. journal (snd (callContractMethod contractAddress abi methodName p1 w)) = journal w @ new \<and>
             (\<forall>c\<in>set new. is_function_call c \<longrightarrow> arguments c = [])))"
proof (intro conjI impI)
  show "callContractMethod contractAddress abi methodName p1 w =
     callContractMethod contractAddress abi methodName p2 w"
    by (simp add: callContractMethod_def)
next
  assume inst: "web3 (self w) = traced l lib"
  let ?run = "callContractMethod contractAddress abi methodName p1 w"
  obtain r0 n1 where c: "eth_Contract lib [abi, contractAddress] (fst (node w)) = (r0, n1)"
    by (cases "eth_Contract lib [abi, contractAddress] (fst (node w))")
  let ?entry = "Call l (EntryPoint ''eth.Contract'') [abi, contractAddress] r0"
  let ?w1 = "w\<lparr>node := (n1, journal w @ [?entry])\<rparr>"
  have step: "this_web3 eth_Contract [abi, contractAddress] w = (r0, ?w1)"
    using this_web3_traced(3) [OF inst] c by simp
  have inst1: "web3 (self ?w1) = traced l lib" using inst by simp
  have j1: "journal ?w1 = journal w @ [?entry]" by (simp add: journal_def)
  have e: "\<not> is_function_call ?entry" by (simp add: is_function_call_def)
  show "\<exists>new. journal (snd ?run) = journal w @ new \<and>
             (\<forall>c\<in>set new. is_function_call c \<longrightarrow> arguments c = [])"
  proof (cases r0)
    case (Inl err)
    with step have "journal (snd ?run) = journal w @ [?entry]"
      by (simp add: callContractMethod_def try_catch_def bind_prog_def console_error_def
          throw_def journal_def)
    with e show ?thesis by (intro exI [of _ "[?entry]"]) simp
  next
    case (Inr contract)
    show ?thesis
    proof (cases "get_prop contract ''methodsmethodName''")
      case (Inl err)
      with Inr step have "journal (snd ?run) = journal w @ [?entry]"
        by (simp add: callContractMethod_def try_catch_def bind_prog_def console_error_def
            throw_def journal_def of_result_def)
      with e show ?thesis by (intro exI [of _ "[?entry]"]) simp
    next
      case got: (Inr member)
      from method_call_traced [OF inst1, of member "''call''" "[]"]
      consider (no_call) err where "method_call member ''call'' [] ?w1 = (Inl err, ?w1)"
        | (call) f receiver args' r n' where "args' = [] \<or> args' = tl []"
          "method_call member ''call'' [] ?w1 =
            (r, ?w1\<lparr>node := (n', journal ?w1 @ [Call l (FunctionValue f receiver) args' r])\<rparr>)"
        by blast
      then show ?thesis
      proof cases
        case no_call
        with Inr got step have "journal (snd ?run) = journal w @ [?entry]"
          by (simp add: callContractMethod_def try_catch_def bind_prog_def console_error_def
              throw_def journal_def of_result_def)
        with e show ?thesis by (intro exI [of _ "[?entry]"]) simp
      next
        case call
        from call(1) have a': "args' = []" by simp
        from Inr got step call(2) have
          "journal (snd ?run) = journal w @ [?entry, Call l (FunctionValue f receiver) [] r]"
          unfolding a'
          by (cases r) (simp_all add: callContractMethod_def try_catch_def bind_prog_def console_error_def
              throw_def journal_def of_result_def return_def)
        with e show ?thesis
          by (intro exI [of _ "[?entry, Call l (FunctionValue f receiver) [] r]"]) simp
      qed
    qed
  qed
qed

theorem callContractMethod_ignores_methodParams_witness:
  "callContractMethod (JStr ''0xC0DE'') token_abi (JStr ''totalSupply'') (JArr [JNum 1])
       (journalled_world provider scenario) =
     callContractMethod (JStr ''0xC0DE'') token_abi (JStr ''totalSupply'') (JArr [])
       (journalled_world provider scenario) \<and>
   web3 (self (journalled_world provider scenario)) =
     traced provider spec_web3 \<and>
   (\<exists>new. journal (snd (callContractMethod (JStr ''0xC0DE'') token_abi (JStr ''totalSupply'')
                             (JArr [JNum 1]) (journalled_world provider scenario))) =
            journal (journalled_world provider scenario) @ new \<and>
          (\<forall>c\<in>set new. is_function_call c \<longrightarrow> arguments c = []))"
proof -
  have inst: "web3 (self (journalled_world provider scenario)) =
      traced provider spec_web3"
    by (simp add: journalled_world_def)
  from callContractMethod_ignores_methodParams
    [where contractAddress = "JStr ''0xC0DE''" and abi = token_abi
       and methodName = "JStr ''totalSupply''" and ?p1.0 = "JArr [JNum 1]" and ?p2.0 = "JArr []"
       and w = "journalled_world provider scenario"
       and l = "provider" and lib = spec_web3] inst
  show ?thesis by blast
qed

section \<open>deployContract\<close>

text \<open>
  The calls of a deployment.  Whenever \<^verbatim>\<open>deployContract\<close> gets as far as submitting the
  deployment, it makes exactly three calls on the client: the contract is constructed
  from the ABI, the deployment object is built from the bytecode and the constructor
  parameters, and the deployment is sent with the options
  \<^verbatim>\<open>{from: fromAddress, gas: 2000000}\<close>, whatever the inputs are.  What it returns is
  the member \<^verbatim>\<open>contractAddress\<close> of what the send resolves to.
\<close>

lemma deployContract_journal:
  assumes inst: "web3 (self w) = traced l lib"
    and made: "eth_Contract lib [abi] (fst (node w)) = (Inr contract, n1)"
    and deploy_member: "get_prop contract ''deploy'' = Inr (JFun deploy_f)"
    and deployed: "invoke lib deploy_f contract
        [JObj [(''data'', bytecode), (''arguments'', constructorParams)]] n1 = (Inr deploy, n2)"
    and send_member: "get_prop deploy ''send'' = Inr (JFun send_f)"
    and sent: "invoke lib send_f deploy
        [JObj [(''from'', fromAddress), (''gas'', JNum 2000000)]] n2 = (r, n3)"
  shows "journal (snd (deployContract abi bytecode fromAddress constructorParams w)) =
           journal w @
           [Call l (EntryPoint ''eth.Contract'') [abi] (Inr contract),
            Call l (FunctionValue deploy_f contract)
              [JObj [(''data'', bytecode), (''arguments'', constructorParams)]] (Inr deploy),
            Call l (FunctionValue send_f deploy)
              [JObj [(''from'', fromAddress), (''gas'', JNum 2000000)]] r] \<and>
         fst (deployContract abi bytecode fromAddress constructorParams w) =
           (case r of
              Inl e \<Rightarrow> Inl e
            | Inr transaction \<Rightarrow> get_prop transaction ''contractAddress'')"
proof -
  let ?c1 = "Call l (EntryPoint ''eth.Contract'') [abi] (Inr contract)"
  let ?c2 = "Call l (FunctionValue deploy_f contract)
              [JObj [(''data'', bytecode), (''arguments'', constructorParams)]] (Inr deploy)"
  let ?c3 = "Call l (FunctionValue send_f deploy)
              [JObj [(''from'', fromAddress), (''gas'', JNum 2000000)]] r"
  let ?w1 = "w\<lparr>node := (n1, journal w @ [?c1])\<rparr>"
  let ?w2 = "w\<lparr>node := (n2, journal w @ [?c1, ?c2])\<rparr>"
  let ?w3 = "w\<lparr>node := (n3, journal w @ [?c1, ?c2, ?c3])\<rparr>"
  have step1: "this_web3 eth_Contract [abi] w = (Inr contract, ?w1)"
    using this_web3_traced(3) [OF inst] made by simp
  have inst1: "web3 (self ?w1) = traced l lib" using inst by simp
  have step2: "method_call contract ''deploy''
      [JObj [(''data'', bytecode), (''arguments'', constructorParams)]] ?w1 = (Inr deploy, ?w2)"
    using method_call_member [OF inst1 deploy_member] deployed by (simp add: journal_def)
  have inst2: "web3 (self ?w2) = traced l lib" using inst by simp
  have step3: "method_call deploy ''send''
      [JObj [(''from'', fromAddress), (''gas'', JNum 2000000)]] ?w2 = (r, ?w3)"
    using method_call_member [OF inst2 send_member] sent by (simp add: journal_def)
  show ?thesis
  proof (cases r)
    case (Inl e)
    with step1 step2 step3 show ?thesis
      by (simp add: deployContract_def try_catch_def bind_prog_def console_error_def throw_def
          journal_def)
  next
    case (Inr transaction)
    with step1 step2 step3 show ?thesis
      by (cases "get_prop transaction ''contractAddress''")
         (simp_all add: deployContract_def try_catch_def bind_prog_def console_error_def throw_def
          of_result_def journal_def)
  qed
qed

text \<open>
  C5.  The code at one input: a deployment of the one-function ABI from \<open>0xABC\<close> on the
  node of the scenario.  The three calls carry the ABI, the bytecode with the constructor
  parameters, and the options with the fixed gas of 2000000.  The send succeeds, the
  deployment is mined (the head moves to 101), and the send resolves to the new contract
  instance, whose address \<open>0xC100\<close> is under \<^verbatim>\<open>options.address\<close>.  That instance has no
  member \<^verbatim>\<open>contractAddress\<close>, so the operation returns \<^verbatim>\<open>undefined\<close>, not the address,
  and logs nothing.
\<close>

theorem deployContract_returns_undefined:
  "map arguments
     (journal (snd (deployContract token_abi (JStr ''0x6080'') (JStr ''0xABC'') (JArr [])
                      (journalled_world provider scenario)))) =
     [[token_abi],
      [JObj [(''data'', JStr ''0x6080''), (''arguments'', JArr [])]],
      [JObj [(''from'', JStr ''0xABC''), (''gas'', JNum 2000000)]]] \<and>
   outcome
     (last (journal (snd (deployContract token_abi (JStr ''0x6080'') (JStr ''0xABC'') (JArr [])
                            (journalled_world provider scenario))))) =
     Inr (JObj [(''options'', JObj [(''address'', JStr ''0xC100''), (''jsonInterface'', token_abi)]),
                (''methods'', JObj [(''totalSupply'', JFun (ContractMethod ''totalSupply''))]),
                (''deploy'', JFun ContractDeploy)]) \<and>
   get_prop (JObj [(''options'', JObj [(''address'', JStr ''0xC100''), (''jsonInterface'', token_abi)]),
                   (''methods'', JObj [(''totalSupply'', JFun (ContractMethod ''totalSupply''))]),
                   (''deploy'', JFun ContractDeploy)]) ''contractAddress'' = Inr JUndefined \<and>
   head (fst (node (snd (deployContract token_abi (JStr ''0x6080'') (JStr ''0xABC'') (JArr [])
                           (journalled_world provider scenario))))) = 101 \<and>
   fst (deployContract token_abi (JStr ''0x6080'') (JStr ''0xABC'') (JArr [])
          (journalled_world provider scenario)) = Inr JUndefined \<and>
   console (snd (deployContract token_abi (JStr ''0x6080'') (JStr ''0xABC'') (JArr [])
                   (journalled_world provider scenario))) = []"
proof -
  let ?w = "journalled_world provider scenario"
  let ?contract = "JObj [(''options'', JObj [(''address'', JUndefined), (''jsonInterface'', token_abi)]),
                    (''methods'', JObj [(''totalSupply'', JFun (ContractMethod ''totalSupply''))]),
                    (''deploy'', JFun ContractDeploy)]"
  let ?deploy = "JObj [(''_parent'', ?contract), (''data'', JStr ''0x6080''),
                       (''arguments'', JArr []), (''send'', JFun DeploySend)]"
  let ?created = "JObj [(''options'', JObj [(''address'', JStr ''0xC100''), (''jsonInterface'', token_abi)]),
                (''methods'', JObj [(''totalSupply'', JFun (ContractMethod ''totalSupply''))]),
                (''deploy'', JFun ContractDeploy)]"
  have inst: "web3 (self ?w) = traced provider spec_web3"
    by (simp add: journalled_world_def)
  have made: "eth_Contract spec_web3 [token_abi] (fst (node ?w)) = (Inr ?contract, scenario)"
    by (simp add: spec_web3_def spec_Contract_def journalled_world_def arg_def token_abi_def
        abi_function_names_def read_prop_def get_prop_def)
  have deploy_member: "get_prop ?contract ''deploy'' = Inr (JFun ContractDeploy)"
    by (simp add: get_prop_def)
  have deployed: "invoke spec_web3 ContractDeploy ?contract
      [JObj [(''data'', JStr ''0x6080''), (''arguments'', JArr [])]] scenario = (Inr ?deploy, scenario)"
    by (simp add: spec_web3_def arg_def read_prop_def get_prop_def)
  have send_member: "get_prop ?deploy ''send'' = Inr (JFun DeploySend)"
    by (simp add: get_prop_def)
  have sent: "invoke spec_web3 DeploySend ?deploy
      [JObj [(''from'', JStr ''0xABC''), (''gas'', JNum 2000000)]] scenario =
      (Inr ?created, scenario\<lparr>head := 101\<rparr>)"
    by (simp add: spec_web3_def arg_def read_prop_def get_prop_def accepted_address_def
        scenario_def instance_at_def show_nat.simps digit_char_numerals)
  have empty: "journal ?w = []" "console ?w = []"
    by (simp_all add: journalled_world_def journal_def)
  have absent: "get_prop ?created ''contractAddress'' = Inr JUndefined"
    by (simp add: get_prop_def)
  note calls = deployContract_journal [OF inst made deploy_member deployed send_member sent]
  have mined: "head (fst (node (snd (deployContract token_abi (JStr ''0x6080'') (JStr ''0xABC'')
      (JArr []) ?w)))) = 101"
    by (simp add: deployContract_def prog_eval spec_eval show_nat.simps digit_char_numerals)
  have quiet: "console (snd (deployContract token_abi (JStr ''0x6080'') (JStr ''0xABC'')
      (JArr []) ?w)) = []"
    by (simp add: deployContract_def prog_eval spec_eval show_nat.simps digit_char_numerals)
  from calls empty absent mined quiet show ?thesis by simp
qed

section \<open>sendTransaction\<close>

text \<open>
  C7.  For every sender, recipient and amount: when the client converts the amount to
  \<open>wei\<close>, and then accepts the transaction whose value is that \<open>wei\<close>, resolving to a
  receipt with a \<^verbatim>\<open>transactionHash\<close>, the operation returns that hash and leaves the
  outside state as the submission left it, with nothing logged.
\<close>

theorem sendTransaction_converts_and_returns_hash:
  assumes "utils_toWei (web3 (self w)) [amount, JStr ''ether''] (node w) = (Inr wei, n1)"
    and "eth_sendTransaction (web3 (self w))
           [JObj [(''from'', fromAddress), (''to'', toAddress), (''value'', wei)]] n1 = (Inr tx, n2)"
    and "get_prop tx ''transactionHash'' = Inr hash"
  shows "sendTransaction fromAddress toAddress amount w = (Inr hash, w\<lparr>node := n2\<rparr>)"
  using assms
  by (simp add: sendTransaction_def try_catch_def bind_prog_def this_web3_def of_result_def)

theorem sendTransaction_converts_and_returns_hash_witness:
  "utils_toWei (web3 (self (spec_world scenario))) [JStr ''1.5'', JStr ''ether'']
     (node (spec_world scenario)) = (Inr (JNum 1500000000000000000), scenario) \<and>
   fst (eth_sendTransaction (web3 (self (spec_world scenario)))
          [JObj [(''from'', JStr ''0xABC''), (''to'', JStr ''0xDEF''),
                 (''value'', JNum 1500000000000000000)]] scenario) =
     Inr (JObj [(''transactionHash'', JStr ''0x100'')]) \<and>
   get_prop (JObj [(''transactionHash'', JStr ''0x100'')] :: fn jsvalue) ''transactionHash'' =
     Inr (JStr ''0x100'') \<and>
   fst (sendTransaction (JStr ''0xABC'') (JStr ''0xDEF'') (JStr ''1.5'') (spec_world scenario)) =
     Inr (JStr ''0x100'')"
proof -
  let ?tx = "JObj [(''from'', JStr ''0xABC''), (''to'', JStr ''0xDEF''),
                   (''value'', JNum 1500000000000000000)] :: fn jsvalue"
  let ?receipt = "JObj [(''transactionHash'', JStr ''0x100'')] :: fn jsvalue"
  have wei: "utils_toWei (web3 (self (spec_world scenario))) [JStr ''1.5'', JStr ''ether'']
      (node (spec_world scenario)) = (Inr (JNum 1500000000000000000), scenario)"
    by (simp add: spec_eval decimal_eval)
  have sent: "fst (eth_sendTransaction (web3 (self (spec_world scenario))) [?tx] scenario) =
      Inr ?receipt"
    by (simp add: spec_eval get_prop_def show_nat.simps digit_char_numerals)
  then have sent': "eth_sendTransaction (web3 (self (spec_world scenario))) [?tx] scenario =
      (Inr ?receipt, snd (eth_sendTransaction (web3 (self (spec_world scenario))) [?tx] scenario))"
    by (metis prod.collapse)
  have hash: "get_prop ?receipt ''transactionHash'' = Inr (JStr ''0x100'')"
    by (simp add: get_prop_def)
  from sendTransaction_converts_and_returns_hash [OF wei sent' hash]
  have "fst (sendTransaction (JStr ''0xABC'') (JStr ''0xDEF'') (JStr ''1.5'') (spec_world scenario)) =
     Inr (JStr ''0x100'')" by simp
  with wei sent hash show ?thesis by blast
qed

text \<open>
  C10.  \<^verbatim>\<open>sendTransaction\<close> first asks the client to convert the amount and, if that
  succeeds, submits one object whose properties are exactly \<^verbatim>\<open>from\<close>, \<^verbatim>\<open>to\<close> and
  \<^verbatim>\<open>value\<close>: the two addresses as given and the converted amount.  Every submission the
  operation makes carries these three property names and no other (no gas, gas price,
  nonce or data).
\<close>

theorem sendTransaction_submits_from_to_value:
  assumes "web3 (self w) = traced l lib"
  shows "journal (snd (sendTransaction fromAddress toAddress amount w)) =
           journal w @
           (case utils_toWei lib [amount, JStr ''ether''] (fst (node w)) of
              (Inl e, n1) \<Rightarrow> [Call l (EntryPoint ''utils.toWei'') [amount, JStr ''ether''] (Inl e)]
            | (Inr wei, n1) \<Rightarrow>
                [Call l (EntryPoint ''utils.toWei'') [amount, JStr ''ether''] (Inr wei),
                 Call l (EntryPoint ''eth.sendTransaction'')
                   [JObj [(''from'', fromAddress), (''to'', toAddress), (''value'', wei)]]
                   (fst (eth_sendTransaction lib
                      [JObj [(''from'', fromAddress), (''to'', toAddress), (''value'', wei)]] n1))]) \<and>
         (\<forall>c\<in>set (drop (length (journal w))
                      (journal (snd (sendTransaction fromAddress toAddress amount w)))).
            target c = EntryPoint ''eth.sendTransaction'' \<longrightarrow>
            map property_names (arguments c) = [[''from'', ''to'', ''value'']])"
proof -
  obtain r1 n1 where t: "utils_toWei lib [amount, JStr ''ether''] (fst (node w)) = (r1, n1)"
    by (cases "utils_toWei lib [amount, JStr ''ether''] (fst (node w))")
  show ?thesis
    unfolding sendTransaction_journal [OF assms] t
    by (cases r1) (simp_all add: property_names_def)
qed

theorem sendTransaction_submits_from_to_value_witness:
  "web3 (self (journalled_world provider scenario)) = traced provider spec_web3 \<and>
   journal (snd (sendTransaction (JStr ''0xABC'') (JStr ''0xDEF'') (JStr ''1.5'')
                   (journalled_world provider scenario))) =
     [Call provider (EntryPoint ''utils.toWei'') [JStr ''1.5'', JStr ''ether'']
        (Inr (JNum 1500000000000000000)),
      Call provider (EntryPoint ''eth.sendTransaction'')
        [JObj [(''from'', JStr ''0xABC''), (''to'', JStr ''0xDEF''),
               (''value'', JNum 1500000000000000000)]]
        (Inr (JObj [(''transactionHash'', JStr ''0x100'')]))]"
proof -
  have inst: "web3 (self (journalled_world provider scenario)) = traced provider spec_web3"
    by (simp add: journalled_world_def)
  have wei: "utils_toWei spec_web3 [JStr ''1.5'', JStr ''ether'']
      (fst (node (journalled_world provider scenario))) = (Inr (JNum 1500000000000000000), scenario)"
    by (simp add: spec_eval decimal_eval)
  have sent: "fst (eth_sendTransaction spec_web3
      [JObj [(''from'', JStr ''0xABC''), (''to'', JStr ''0xDEF''),
             (''value'', JNum 1500000000000000000)]] scenario) =
      Inr (JObj [(''transactionHash'', JStr ''0x100'')])"
    by (simp add: spec_eval get_prop_def show_nat.simps digit_char_numerals)
  have empty: "journal (journalled_world provider scenario) = []"
    by (simp add: journalled_world_def journal_def)
  note submitted = sendTransaction_submits_from_to_value
    [OF inst, of "JStr ''0xABC''" "JStr ''0xDEF''" "JStr ''1.5''", unfolded wei empty]
  from submitted sent
  have "journal (snd (sendTransaction (JStr ''0xABC'') (JStr ''0xDEF'') (JStr ''1.5'')
                   (journalled_world provider scenario))) =
     [Call provider (EntryPoint ''utils.toWei'') [JStr ''1.5'', JStr ''ether'']
        (Inr (JNum 1500000000000000000)),
      Call provider (EntryPoint ''eth.sendTransaction'')
        [JObj [(''from'', JStr ''0xABC''), (''to'', JStr ''0xDEF''),
               (''value'', JNum 1500000000000000000)]]
        (Inr (JObj [(''transactionHash'', JStr ''0x100'')]))]"
    by simp
  with inst show ?thesis by blast
qed

section \<open>Failures and the handle, for all five operations\<close>

text \<open>
  C4.  For each of the five operations: the object is the same afterwards; a client call
  that fails is the last call the operation makes (nothing is retried and nothing else is
  tried), and its error is the operation's own result, unchanged; a failing operation
  writes exactly one console line, its prefix and that error, and a succeeding one writes
  none.
\<close>

theorem failure_reraised_unchanged:
  assumes "web3 (self w) = traced l lib" and "perform r w = (res, w')"
  shows "self w' = self w \<and>
         (\<forall>e. res = Inl e \<longrightarrow> console w' = console w @ [(log_prefix r, e)]) \<and>
         (\<not> failed res \<longrightarrow> console w' = console w) \<and>
         (\<exists>new. journal w' = journal w @ new \<and>
               (\<forall>c\<in>set (butlast new). \<not> failed (outcome c)) \<and>
               (\<forall>e. new \<noteq> [] \<and> outcome (last new) = Inl e \<longrightarrow> res = Inl e))"
  using perform_orderly [OF assms] by blast

theorem failure_reraised_unchanged_witness:
  "web3 (self (journalled_world provider (scenario\<lparr>reachable := False\<rparr>))) =
     traced provider spec_web3 \<and>
   perform (GetBalance (JStr ''0xABC''))
     (journalled_world provider (scenario\<lparr>reachable := False\<rparr>)) =
     (Inl ConnectionError,
      (journalled_world provider (scenario\<lparr>reachable := False\<rparr>))
        \<lparr>node := (scenario\<lparr>reachable := False\<rparr>,
                  [Call provider (EntryPoint ''eth.getBalance'')
                     [JStr ''0xABC''] (Inl ConnectionError)]),
         console := [(''Error fetching balance:'', ConnectionError)]\<rparr>) \<and>
   self ((journalled_world provider (scenario\<lparr>reachable := False\<rparr>))
        \<lparr>node := (scenario\<lparr>reachable := False\<rparr>,
                  [Call provider (EntryPoint ''eth.getBalance'')
                     [JStr ''0xABC''] (Inl ConnectionError)]),
         console := [(''Error fetching balance:'', ConnectionError)]\<rparr>) =
     self (journalled_world provider (scenario\<lparr>reachable := False\<rparr>))"
proof -
  let ?w = "journalled_world provider (scenario\<lparr>reachable := False\<rparr>)"
  let ?w' = "?w\<lparr>node := (scenario\<lparr>reachable := False\<rparr>,
                  [Call provider (EntryPoint ''eth.getBalance'')
                     [JStr ''0xABC''] (Inl ConnectionError)]),
         console := [(''Error fetching balance:'', ConnectionError)]\<rparr>"
  have inst: "web3 (self ?w) = traced provider spec_web3"
    by (simp add: journalled_world_def)
  have run: "perform (GetBalance (JStr ''0xABC'')) ?w = (Inl ConnectionError, ?w')"
    by (simp add: getBalance_def prog_eval spec_eval)
  from failure_reraised_unchanged [OF inst run] inst run show ?thesis by simp
qed

section \<open>The handle, from construction through a session\<close>

text \<open>
  Every operation starts with a call on the handle; a session makes at least one call
  for each of its operations, all of them on the handle.
\<close>

lemma first_call:
  assumes inst: "web3 (self w) = traced l lib"
    and step: "\<exists>r n'. first w = (r, w\<lparr>node := (n', journal w @ [Call l t args r])\<rparr>)"
    and rest: "\<And>x. orderly l lib (k x)"
    and run: "try_catch (bind_prog first k)
        (\<lambda>error. bind_prog (console_error msg error) (\<lambda>_. throw error)) w = (res, w')"
  shows "\<exists>out rest. journal w' = journal w @ Call l t args out # rest"
proof -
  from step obtain r n' where
    f: "first w = (r, w\<lparr>node := (n', journal w @ [Call l t args r])\<rparr>)" by blast
  let ?w1 = "w\<lparr>node := (n', journal w @ [Call l t args r])\<rparr>"
  have j1: "journal ?w1 = journal w @ [Call l t args r]" by (simp add: journal_def)
  have inst1: "web3 (self ?w1) = traced l lib" using inst by simp
  show ?thesis
  proof (cases r)
    case (Inl e)
    with f run have "journal w' = journal ?w1"
      by (auto simp: try_catch_def bind_prog_def console_error_def throw_def journal_def)
    with j1 show ?thesis by simp
  next
    case (Inr x)
    obtain r2 w2 where k: "k x ?w1 = (r2, w2)" by (cases "k x ?w1")
    from rest [of x] inst1 k obtain new where j2: "journal w2 = journal ?w1 @ new"
      unfolding orderly_def by blast
    from Inr f k run have "journal w' = journal w2"
      by (cases r2)
         (auto simp: try_catch_def bind_prog_def console_error_def throw_def journal_def)
    with j1 j2 show ?thesis by simp
  qed
qed

lemma this_web3_appends:
  assumes "web3 (self w) = traced l lib"
  shows
    "\<exists>r n'. this_web3 eth_getBlockNumber args w =
       (r, w\<lparr>node := (n', journal w @ [Call l (EntryPoint ''eth.getBlockNumber'') args r])\<rparr>)"
    "\<exists>r n'. this_web3 eth_getBalance args w =
       (r, w\<lparr>node := (n', journal w @ [Call l (EntryPoint ''eth.getBalance'') args r])\<rparr>)"
    "\<exists>r n'. this_web3 eth_Contract args w =
       (r, w\<lparr>node := (n', journal w @ [Call l (EntryPoint ''eth.Contract'') args r])\<rparr>)"
    "\<exists>r n'. this_web3 utils_toWei args w =
       (r, w\<lparr>node := (n', journal w @ [Call l (EntryPoint ''utils.toWei'') args r])\<rparr>)"
  unfolding this_web3_traced [OF assms]
  by (auto split: prod.splits)

lemma perform_first_call:
  assumes inst: "web3 (self w) = traced l lib" and run: "perform r w = (res, w')"
  shows "\<exists>out rest. journal w' =
           journal w @ Call l (EntryPoint (fst (entry_call r))) (snd (entry_call r)) out # rest \<and>
           (\<forall>c\<in>set rest. uses_instance l c)"
proof -
  have "\<exists>out rest. journal w' =
      journal w @ Call l (EntryPoint (fst (entry_call r))) (snd (entry_call r)) out # rest"
  proof (cases r)
    case GetBlockNumber
    have "\<exists>out rest. journal w' =
        journal w @ Call l (EntryPoint ''eth.getBlockNumber'') [] out # rest"
    proof (rule first_call [where first = "this_web3 eth_getBlockNumber []"
          and k = "\<lambda>blockNumber. return blockNumber" and msg = "''Error fetching block number:''"
          and res = res, OF inst])
      show "\<exists>r n'. this_web3 eth_getBlockNumber [] w =
          (r, w\<lparr>node := (n', journal w @ [Call l (EntryPoint ''eth.getBlockNumber'') [] r])\<rparr>)"
        by (rule this_web3_appends(1) [OF inst])
      show "\<And>x. orderly l lib (return x)" by (rule orderly_return)
      show "try_catch (bind_prog (this_web3 eth_getBlockNumber []) (\<lambda>blockNumber. return blockNumber))
          (\<lambda>error. bind_prog (console_error ''Error fetching block number:'' error)
             (\<lambda>_. throw error)) w = (res, w')"
        using run GetBlockNumber by (simp add: getBlockNumber_def)
    qed
    with GetBlockNumber show ?thesis by simp
  next
    case (GetBalance address)
    have "\<exists>out rest. journal w' =
        journal w @ Call l (EntryPoint ''eth.getBalance'') [address] out # rest"
    proof (rule first_call [where first = "this_web3 eth_getBalance [address]"
          and k = "\<lambda>balance. this_web3 utils_fromWei [balance, JStr ''ether'']"
          and msg = "''Error fetching balance:''" and res = res, OF inst])
      show "\<exists>r n'. this_web3 eth_getBalance [address] w =
          (r, w\<lparr>node := (n', journal w @ [Call l (EntryPoint ''eth.getBalance'') [address] r])\<rparr>)"
        by (rule this_web3_appends(2) [OF inst])
      show "\<And>x. orderly l lib (this_web3 utils_fromWei [x, JStr ''ether''])"
        by (rule orderly_this_web3)
      show "try_catch (bind_prog (this_web3 eth_getBalance [address])
            (\<lambda>balance. this_web3 utils_fromWei [balance, JStr ''ether'']))
          (\<lambda>error. bind_prog (console_error ''Error fetching balance:'' error)
             (\<lambda>_. throw error)) w = (res, w')"
        using run GetBalance by (simp add: getBalance_def)
    qed
    with GetBalance show ?thesis by simp
  next
    case (CallContractMethod contractAddress abi methodName methodParams)
    have "\<exists>out rest. journal w' =
        journal w @ Call l (EntryPoint ''eth.Contract'') [abi, contractAddress] out # rest"
    proof (rule first_call [where first = "this_web3 eth_Contract [abi, contractAddress]"
          and k = "\<lambda>contract.
             bind_prog (of_result (get_prop contract ''methodsmethodName'')) (\<lambda>member.
             bind_prog (method_call member ''call'' []) (\<lambda>result.
             return result))"
          and msg = "''Error calling contract method:''" and res = res, OF inst])
      show "\<exists>r n'. this_web3 eth_Contract [abi, contractAddress] w =
          (r, w\<lparr>node := (n', journal w @
             [Call l (EntryPoint ''eth.Contract'') [abi, contractAddress] r])\<rparr>)"
        by (rule this_web3_appends(3) [OF inst])
      show "\<And>x. orderly l lib
          (bind_prog (of_result (get_prop x ''methodsmethodName'')) (\<lambda>member.
           bind_prog (method_call member ''call'' []) (\<lambda>result.
           return result)))"
        by (intro orderly_intros)
      show "try_catch (bind_prog (this_web3 eth_Contract [abi, contractAddress]) (\<lambda>contract.
             bind_prog (of_result (get_prop contract ''methodsmethodName'')) (\<lambda>member.
             bind_prog (method_call member ''call'' []) (\<lambda>result.
             return result))))
          (\<lambda>error. bind_prog (console_error ''Error calling contract method:'' error)
             (\<lambda>_. throw error)) w = (res, w')"
        using run CallContractMethod by (simp add: callContractMethod_def)
    qed
    with CallContractMethod show ?thesis by simp
  next
    case (DeployContract abi bytecode fromAddress constructorParams)
    have "\<exists>out rest. journal w' =
        journal w @ Call l (EntryPoint ''eth.Contract'') [abi] out # rest"
    proof (rule first_call [where first = "this_web3 eth_Contract [abi]"
          and k = "\<lambda>contract.
             bind_prog (method_call contract ''deploy''
                          [JObj [(''data'', bytecode), (''arguments'', constructorParams)]]) (\<lambda>deploy.
             bind_prog (method_call deploy ''send''
                          [JObj [(''from'', fromAddress), (''gas'', JNum 2000000)]]) (\<lambda>transaction.
             of_result (get_prop transaction ''contractAddress'')))"
          and msg = "''Error deploying contract:''" and res = res, OF inst])
      show "\<exists>r n'. this_web3 eth_Contract [abi] w =
          (r, w\<lparr>node := (n', journal w @ [Call l (EntryPoint ''eth.Contract'') [abi] r])\<rparr>)"
        by (rule this_web3_appends(3) [OF inst])
      show "\<And>x. orderly l lib
          (bind_prog (method_call x ''deploy''
                        [JObj [(''data'', bytecode), (''arguments'', constructorParams)]]) (\<lambda>deploy.
           bind_prog (method_call deploy ''send''
                        [JObj [(''from'', fromAddress), (''gas'', JNum 2000000)]]) (\<lambda>transaction.
           of_result (get_prop transaction ''contractAddress''))))"
        by (intro orderly_intros)
      show "try_catch (bind_prog (this_web3 eth_Contract [abi]) (\<lambda>contract.
             bind_prog (method_call contract ''deploy''
                          [JObj [(''data'', bytecode), (''arguments'', constructorParams)]]) (\<lambda>deploy.
             bind_prog (method_call deploy ''send''
                          [JObj [(''from'', fromAddress), (''gas'', JNum 2000000)]]) (\<lambda>transaction.
             of_result (get_prop transaction ''contractAddress'')))))
          (\<lambda>error. bind_prog (console_error ''Error deploying contract:'' error)
             (\<lambda>_. throw error)) w = (res, w')"
        using run DeployContract by (simp add: deployContract_def)
    qed
    with DeployContract show ?thesis by simp
  next
    case (SendTransaction fromAddress toAddress amount)
    have "\<exists>out rest. journal w' =
        journal w @ Call l (EntryPoint ''utils.toWei'') [amount, JStr ''ether''] out # rest"
    proof (rule first_call [where first = "this_web3 utils_toWei [amount, JStr ''ether'']"
          and k = "\<lambda>wei.
             bind_prog (this_web3 eth_sendTransaction
                          [JObj [(''from'', fromAddress), (''to'', toAddress), (''value'', wei)]]) (\<lambda>tx.
             of_result (get_prop tx ''transactionHash''))"
          and msg = "''Error sending transaction:''" and res = res, OF inst])
      show "\<exists>r n'. this_web3 utils_toWei [amount, JStr ''ether''] w =
          (r, w\<lparr>node := (n', journal w @
             [Call l (EntryPoint ''utils.toWei'') [amount, JStr ''ether''] r])\<rparr>)"
        by (rule this_web3_appends(4) [OF inst])
      show "\<And>x. orderly l lib
          (bind_prog (this_web3 eth_sendTransaction
                        [JObj [(''from'', fromAddress), (''to'', toAddress), (''value'', x)]]) (\<lambda>tx.
           of_result (get_prop tx ''transactionHash'')))"
        by (intro orderly_intros)
      show "try_catch (bind_prog (this_web3 utils_toWei [amount, JStr ''ether'']) (\<lambda>wei.
             bind_prog (this_web3 eth_sendTransaction
                          [JObj [(''from'', fromAddress), (''to'', toAddress), (''value'', wei)]]) (\<lambda>tx.
             of_result (get_prop tx ''transactionHash''))))
          (\<lambda>error. bind_prog (console_error ''Error sending transaction:'' error)
             (\<lambda>_. throw error)) w = (res, w')"
        using run SendTransaction by (simp add: sendTransaction_def)
    qed
    with SendTransaction show ?thesis by simp
  qed
  then obtain out rest where j: "journal w' = journal w @
      Call l (EntryPoint (fst (entry_call r))) (snd (entry_call r)) out # rest" by blast
  from perform_orderly [OF inst run] obtain new where
    n: "journal w' = journal w @ new" "\<forall>c\<in>set new. uses_instance l c" by blast
  from j n(1) have "new = Call l (EntryPoint (fst (entry_call r))) (snd (entry_call r)) out # rest"
    by simp
  with n(2) have "\<forall>c\<in>set rest. uses_instance l c" by simp
  with j show ?thesis by blast
qed

lemma session_orderly:
  assumes "web3 (self w) = traced l lib" and "session rs w = (ress, w')"
  shows "self w' = self w \<and>
         (\<exists>new. journal w' = journal w @ new \<and> length rs \<le> length new \<and>
                (\<forall>c\<in>set new. uses_instance l c))"
  using assms
proof (induction rs arbitrary: w ress w')
  case Nil
  then show ?case by simp
next
  case (Cons r rs)
  obtain res w1 where p: "perform r w = (res, w1)" by (cases "perform r w")
  obtain ress1 w2 where s: "session rs w1 = (ress1, w2)" by (cases "session rs w1")
  from Cons.prems(2) p s have w': "w' = w2" by simp
  from perform_orderly [OF Cons.prems(1) p] have s1: "self w1 = self w" by blast
  from perform_first_call [OF Cons.prems(1) p] obtain c1 rest where
    1: "journal w1 = journal w @ c1 # rest" "\<forall>c\<in>set (c1 # rest). uses_instance l c"
    using perform_orderly [OF Cons.prems(1) p] by (auto simp: uses_instance_def)
  from s1 Cons.prems(1) have inst1: "web3 (self w1) = traced l lib" by simp
  from Cons.IH [OF inst1 s] obtain new2 where
    2: "self w2 = self w1" "journal w2 = journal w1 @ new2" "length rs \<le> length new2"
      "\<forall>c\<in>set new2. uses_instance l c"
    by blast
  from s1 1 2 w' show ?case
    by (intro conjI exI [of _ "(c1 # rest) @ new2"]) auto
qed

text \<open>
  C8.  The constructor makes the handle by one \<^verbatim>\<open>new Web3(providerUrl)\<close>, the only line
  it writes to the journal, and stores the instance in the object.  From then on, on that
  object: every one of the five operations leaves the object as the constructor built it
  and starts with its own call on the instance created from that provider URL, and every
  further call it makes is on that instance too, never a second construction.  So after
  any session the journal is the one construction followed by at least one call per
  operation, all of them on that instance, and the object still holds it.
\<close>

theorem handle_created_once_and_reused:
  assumes made: "constructor (traced_Web3 Web3) providerUrl (n, []) = (Inr obj, n1)"
  shows "(\<exists>instance n'. Web3 providerUrl n = (Inr instance, n') \<and>
            web3 obj = traced providerUrl instance \<and>
            n1 = (n', [Call providerUrl (EntryPoint ''new Web3'') [providerUrl] (Inr JUndefined)])) \<and>
         (\<forall>r w res w1. self w = obj \<and> perform r w = (res, w1) \<longrightarrow>
            self w1 = obj \<and>
            (\<exists>out rest. journal w1 =
                 journal w @
                 Call providerUrl (EntryPoint (fst (entry_call r))) (snd (entry_call r)) out # rest \<and>
               (\<forall>c\<in>set rest. via c = providerUrl \<and> target c \<noteq> EntryPoint ''new Web3''))) \<and>
         (\<forall>rs cs ress w'. session rs \<lparr>self = obj, node = n1, console = cs\<rparr> = (ress, w') \<longrightarrow>
            self w' = obj \<and>
            (\<exists>calls. journal w' =
                 Call providerUrl (EntryPoint ''new Web3'') [providerUrl] (Inr JUndefined) # calls \<and>
               length rs \<le> length calls \<and>
               (\<forall>c\<in>set calls. via c = providerUrl \<and> target c \<noteq> EntryPoint ''new Web3'')))"
proof -
  obtain r0 n' where w: "Web3 providerUrl n = (r0, n')" by (cases "Web3 providerUrl n")
  from made w obtain created where
    i: "r0 = Inr created" "web3 obj = traced providerUrl created"
      "n1 = (n', [Call providerUrl (EntryPoint ''new Web3'') [providerUrl] (Inr JUndefined)])"
    by (cases r0) (auto simp: constructor_def traced_Web3_def construction_def)
  have first: "\<exists>created n'. Web3 providerUrl n = (Inr created, n') \<and>
            web3 obj = traced providerUrl created \<and>
            n1 = (n', [Call providerUrl (EntryPoint ''new Web3'') [providerUrl] (Inr JUndefined)])"
    using w i by blast
  have each: "\<forall>r w res w1. self w = obj \<and> perform r w = (res, w1) \<longrightarrow>
            self w1 = obj \<and>
            (\<exists>out rest. journal w1 =
                 journal w @
                 Call providerUrl (EntryPoint (fst (entry_call r))) (snd (entry_call r)) out # rest \<and>
               (\<forall>c\<in>set rest. via c = providerUrl \<and> target c \<noteq> EntryPoint ''new Web3''))"
  proof (intro allI impI, elim conjE)
    fix r w res w1
    assume s: "self w = obj" and p: "perform r w = (res, w1)"
    from s i(2) have inst: "web3 (self w) = traced providerUrl created" by simp
    from perform_orderly [OF inst p] s have "self w1 = obj" by simp
    with perform_first_call [OF inst p]
    show "self w1 = obj \<and>
            (\<exists>out rest. journal w1 =
                 journal w @
                 Call providerUrl (EntryPoint (fst (entry_call r))) (snd (entry_call r)) out # rest \<and>
               (\<forall>c\<in>set rest. via c = providerUrl \<and> target c \<noteq> EntryPoint ''new Web3''))"
      by (simp add: uses_instance_def)
  qed
  have whole: "\<forall>rs cs ress w'. session rs \<lparr>self = obj, node = n1, console = cs\<rparr> = (ress, w') \<longrightarrow>
            self w' = obj \<and>
            (\<exists>calls. journal w' =
                 Call providerUrl (EntryPoint ''new Web3'') [providerUrl] (Inr JUndefined) # calls \<and>
               length rs \<le> length calls \<and>
               (\<forall>c\<in>set calls. via c = providerUrl \<and> target c \<noteq> EntryPoint ''new Web3''))"
  proof (intro allI impI)
    fix rs cs ress w'
    assume run: "session rs \<lparr>self = obj, node = n1, console = cs\<rparr> = (ress, w')"
    let ?w = "\<lparr>self = obj, node = n1, console = cs\<rparr>"
    have inst: "web3 (self ?w) = traced providerUrl created" using i(2) by simp
    have j0: "journal ?w = [Call providerUrl (EntryPoint ''new Web3'') [providerUrl] (Inr JUndefined)]"
      using i(3) by (simp add: journal_def)
    from session_orderly [OF inst run] obtain new where
      "self w' = obj" "journal w' = journal ?w @ new" "length rs \<le> length new"
      "\<forall>c\<in>set new. uses_instance providerUrl c"
      by auto
    with j0 show "self w' = obj \<and>
            (\<exists>calls. journal w' =
                 Call providerUrl (EntryPoint ''new Web3'') [providerUrl] (Inr JUndefined) # calls \<and>
               length rs \<le> length calls \<and>
               (\<forall>c\<in>set calls. via c = providerUrl \<and> target c \<noteq> EntryPoint ''new Web3''))"
      by (simp add: uses_instance_def)
  qed
  from first each whole show ?thesis by blast
qed

theorem handle_created_once_and_reused_witness:
  "constructor (traced_Web3 spec_Web3) provider (scenario, []) =
     (Inr \<lparr>web3 = traced provider spec_web3\<rparr>,
      (scenario, [Call provider (EntryPoint ''new Web3'') [provider] (Inr JUndefined)])) \<and>
   fst (session
     [GetBlockNumber,
      GetBalance (JStr ''0xABC''),
      CallContractMethod (JStr ''0xC0DE'') token_abi (JStr ''totalSupply'') (JArr []),
      DeployContract token_abi (JStr ''0x6080'') (JStr ''0xABC'') (JArr []),
      SendTransaction (JStr ''0xABC'') (JStr ''0xDEF'') (JStr ''1.5'')]
     \<lparr>self = \<lparr>web3 = traced provider spec_web3\<rparr>,
      node = (scenario, [Call provider (EntryPoint ''new Web3'') [provider] (Inr JUndefined)]),
      console = []\<rparr>) =
     [Inr (JNum 100), Inr (JStr ''2.5''),
      Inl (TypeError ''Cannot read properties of undefined (reading call)''),
      Inr JUndefined, Inr (JStr ''0x101'')] \<and>
   map arguments (journal (snd (session
     [GetBlockNumber,
      GetBalance (JStr ''0xABC''),
      CallContractMethod (JStr ''0xC0DE'') token_abi (JStr ''totalSupply'') (JArr []),
      DeployContract token_abi (JStr ''0x6080'') (JStr ''0xABC'') (JArr []),
      SendTransaction (JStr ''0xABC'') (JStr ''0xDEF'') (JStr ''1.5'')]
     \<lparr>self = \<lparr>web3 = traced provider spec_web3\<rparr>,
      node = (scenario, [Call provider (EntryPoint ''new Web3'') [provider] (Inr JUndefined)]),
      console = []\<rparr>))) =
     [[provider],
      [],
      [JStr ''0xABC''], [JNum 2500000000000000000, JStr ''ether''],
      [token_abi, JStr ''0xC0DE''],
      [token_abi], [JObj [(''data'', JStr ''0x6080''), (''arguments'', JArr [])]],
      [JObj [(''from'', JStr ''0xABC''), (''gas'', JNum 2000000)]],
      [JStr ''1.5'', JStr ''ether''],
      [JObj [(''from'', JStr ''0xABC''), (''to'', JStr ''0xDEF''),
             (''value'', JNum 1500000000000000000)]]] \<and>
   self (snd (session
     [GetBlockNumber,
      GetBalance (JStr ''0xABC''),
      CallContractMethod (JStr ''0xC0DE'') token_abi (JStr ''totalSupply'') (JArr []),
      DeployContract token_abi (JStr ''0x6080'') (JStr ''0xABC'') (JArr []),
      SendTransaction (JStr ''0xABC'') (JStr ''0xDEF'') (JStr ''1.5'')]
     \<lparr>self = \<lparr>web3 = traced provider spec_web3\<rparr>,
      node = (scenario, [Call provider (EntryPoint ''new Web3'') [provider] (Inr JUndefined)]),
      console = []\<rparr>)) = \<lparr>web3 = traced provider spec_web3\<rparr> \<and>
   list_all (\<lambda>c. via c = provider) (journal (snd (session
     [GetBlockNumber,
      GetBalance (JStr ''0xABC''),
      CallContractMethod (JStr ''0xC0DE'') token_abi (JStr ''totalSupply'') (JArr []),
      DeployContract token_abi (JStr ''0x6080'') (JStr ''0xABC'') (JArr []),
      SendTransaction (JStr ''0xABC'') (JStr ''0xDEF'') (JStr ''1.5'')]
     \<lparr>self = \<lparr>web3 = traced provider spec_web3\<rparr>,
      node = (scenario, [Call provider (EntryPoint ''new Web3'') [provider] (Inr JUndefined)]),
      console = []\<rparr>))) \<and>
   filter (\<lambda>c. target c = EntryPoint ''new Web3'') (journal (snd (session
     [GetBlockNumber,
      GetBalance (JStr ''0xABC''),
      CallContractMethod (JStr ''0xC0DE'') token_abi (JStr ''totalSupply'') (JArr []),
      DeployContract token_abi (JStr ''0x6080'') (JStr ''0xABC'') (JArr []),
      SendTransaction (JStr ''0xABC'') (JStr ''0xDEF'') (JStr ''1.5'')]
     \<lparr>self = \<lparr>web3 = traced provider spec_web3\<rparr>,
      node = (scenario, [Call provider (EntryPoint ''new Web3'') [provider] (Inr JUndefined)]),
      console = []\<rparr>))) =
     [Call provider (EntryPoint ''new Web3'') [provider] (Inr JUndefined)]"
proof -
  let ?obj = "\<lparr>web3 = traced provider spec_web3\<rparr>"
  let ?made = "Call provider (EntryPoint ''new Web3'') [provider] (Inr JUndefined)"
  let ?five = "[GetBlockNumber,
      GetBalance (JStr ''0xABC''),
      CallContractMethod (JStr ''0xC0DE'') token_abi (JStr ''totalSupply'') (JArr []),
      DeployContract token_abi (JStr ''0x6080'') (JStr ''0xABC'') (JArr []),
      SendTransaction (JStr ''0xABC'') (JStr ''0xDEF'') (JStr ''1.5'')]"
  let ?w = "\<lparr>self = ?obj, node = (scenario, [?made]), console = []\<rparr>"
  let ?type_error = "TypeError ''Cannot read properties of undefined (reading call)''"
  let ?at = "JObj [(''options'', JObj [(''address'', JStr ''0xC0DE''), (''jsonInterface'', token_abi)]),
                   (''methods'', JObj [(''totalSupply'', JFun (ContractMethod ''totalSupply''))]),
                   (''deploy'', JFun ContractDeploy)]"
  let ?contract = "JObj [(''options'', JObj [(''address'', JUndefined), (''jsonInterface'', token_abi)]),
                    (''methods'', JObj [(''totalSupply'', JFun (ContractMethod ''totalSupply''))]),
                    (''deploy'', JFun ContractDeploy)]"
  let ?deploy = "JObj [(''_parent'', ?contract), (''data'', JStr ''0x6080''),
                       (''arguments'', JArr []), (''send'', JFun DeploySend)]"
  let ?created = "JObj [(''options'', JObj [(''address'', JStr ''0xC100''), (''jsonInterface'', token_abi)]),
                (''methods'', JObj [(''totalSupply'', JFun (ContractMethod ''totalSupply''))]),
                (''deploy'', JFun ContractDeploy)]"
  let ?c1 = "Call provider (EntryPoint ''eth.getBlockNumber'') [] (Inr (JNum 100))"
  let ?c2 = "Call provider (EntryPoint ''eth.getBalance'') [JStr ''0xABC'']
               (Inr (JNum 2500000000000000000))"
  let ?c3 = "Call provider (EntryPoint ''utils.fromWei'') [JNum 2500000000000000000, JStr ''ether'']
               (Inr (JStr ''2.5''))"
  let ?c4 = "Call provider (EntryPoint ''eth.Contract'') [token_abi, JStr ''0xC0DE''] (Inr ?at)"
  let ?c5 = "Call provider (EntryPoint ''eth.Contract'') [token_abi] (Inr ?contract)"
  let ?c6 = "Call provider (FunctionValue ContractDeploy ?contract)
               [JObj [(''data'', JStr ''0x6080''), (''arguments'', JArr [])]] (Inr ?deploy)"
  let ?c7 = "Call provider (FunctionValue DeploySend ?deploy)
               [JObj [(''from'', JStr ''0xABC''), (''gas'', JNum 2000000)]] (Inr ?created)"
  let ?log = "[(''Error calling contract method:'', ?type_error)]"
  let ?w1 = "\<lparr>self = ?obj, node = (scenario, [?made, ?c1]), console = []\<rparr>"
  let ?w2 = "\<lparr>self = ?obj, node = (scenario, [?made, ?c1, ?c2, ?c3]), console = []\<rparr>"
  let ?w3 = "\<lparr>self = ?obj, node = (scenario, [?made, ?c1, ?c2, ?c3, ?c4]), console = ?log\<rparr>"
  let ?w4 = "\<lparr>self = ?obj,
             node = (scenario\<lparr>head := 101\<rparr>, [?made, ?c1, ?c2, ?c3, ?c4, ?c5, ?c6, ?c7]),
             console = ?log\<rparr>"
  let ?last = "perform (SendTransaction (JStr ''0xABC'') (JStr ''0xDEF'') (JStr ''1.5'')) ?w4"
  have made: "constructor (traced_Web3 spec_Web3) provider (scenario, []) =
      (Inr ?obj, (scenario, [?made]))"
    by (simp add: constructor_def traced_Web3_def spec_Web3_def construction_def)
  have one: "perform GetBlockNumber ?w = (Inr (JNum 100), ?w1)"
    by (simp add: getBlockNumber_def prog_eval spec_eval)
  have two: "perform (GetBalance (JStr ''0xABC'')) ?w1 = (Inr (JStr ''2.5''), ?w2)"
    by (simp add: getBalance_def prog_eval spec_eval decimal_eval)
  have three: "perform (CallContractMethod (JStr ''0xC0DE'') token_abi (JStr ''totalSupply'') (JArr []))
      ?w2 = (Inl ?type_error, ?w3)"
    by (simp add: callContractMethod_def prog_eval spec_eval)
  have four: "perform (DeployContract token_abi (JStr ''0x6080'') (JStr ''0xABC'') (JArr [])) ?w3 =
      (Inr JUndefined, ?w4)"
    by (simp add: deployContract_def prog_eval spec_eval show_nat.simps digit_char_numerals)
  have five_result: "fst ?last = Inr (JStr ''0x101'')"
    by (simp add: sendTransaction_def prog_eval spec_eval decimal_eval)
  have inst4: "web3 (self ?w4) = traced provider spec_web3" by simp
  have wei: "utils_toWei spec_web3 [JStr ''1.5'', JStr ''ether''] (fst (node ?w4)) =
      (Inr (JNum 1500000000000000000), scenario\<lparr>head := 101\<rparr>)"
    by (simp add: spec_web3_def spec_toWei_def arg_def decimal_eval)
  have five_args: "map arguments (journal (snd ?last)) =
      map arguments (journal ?w4) @
      [[JStr ''1.5'', JStr ''ether''],
       [JObj [(''from'', JStr ''0xABC''), (''to'', JStr ''0xDEF''),
              (''value'', JNum 1500000000000000000)]]]"
    using sendTransaction_journal [OF inst4, of "JStr ''0xABC''" "JStr ''0xDEF''" "JStr ''1.5''"]
    unfolding wei by simp
  have run: "session ?five ?w =
      ([Inr (JNum 100), Inr (JStr ''2.5''), Inl ?type_error, Inr JUndefined, fst ?last], snd ?last)"
    using one two three four by (simp add: split_beta)
  have results: "fst (session ?five ?w) =
     [Inr (JNum 100), Inr (JStr ''2.5''), Inl ?type_error, Inr JUndefined, Inr (JStr ''0x101'')]"
    unfolding run five_result by simp
  have args: "map arguments (journal (snd (session ?five ?w))) =
     [[provider],
      [],
      [JStr ''0xABC''], [JNum 2500000000000000000, JStr ''ether''],
      [token_abi, JStr ''0xC0DE''],
      [token_abi], [JObj [(''data'', JStr ''0x6080''), (''arguments'', JArr [])]],
      [JObj [(''from'', JStr ''0xABC''), (''gas'', JNum 2000000)]],
      [JStr ''1.5'', JStr ''ether''],
      [JObj [(''from'', JStr ''0xABC''), (''to'', JStr ''0xDEF''),
             (''value'', JNum 1500000000000000000)]]]"
    unfolding run snd_conv five_args by (simp add: journal_def)
  have end_world: "snd (session ?five ?w) = snd ?last" unfolding run by simp
  note whole = handle_created_once_and_reused
    [OF made, THEN conjunct2, THEN conjunct2, rule_format, OF run]
  from whole obtain calls where
    s': "self (snd ?last) = ?obj" and
    j': "journal (snd ?last) = ?made # calls" and
    u: "\<forall>c\<in>set calls. via c = provider \<and> target c \<noteq> EntryPoint ''new Web3''"
    by blast
  from s' have s: "self (snd (session ?five ?w)) = ?obj" unfolding end_world .
  from j' have j: "journal (snd (session ?five ?w)) = ?made # calls" unfolding end_world .
  from j u have all: "list_all (\<lambda>c. via c = provider) (journal (snd (session ?five ?w)))"
    by (simp add: list_all_iff)
  from u have "filter (\<lambda>c. target c = EntryPoint ''new Web3'') calls = []"
    by (simp add: filter_empty_conv)
  with j have once: "filter (\<lambda>c. target c = EntryPoint ''new Web3'')
      (journal (snd (session ?five ?w))) = [?made]"
    by simp
  from made results args s all once show ?thesis by blast
qed

end
